theory Spec2Isabelle
  imports Complex_Main
begin

section \<open>The Heidelberg .e2e reader (readers/e2e.py)\<close>

text \<open>
  A shallow embedding of the class \<open>E2E\<close>: its two decoders of the vendor's 16-bit
  unsigned float, and the two public operations \<open>read_oct_volume\<close> and
  \<open>read_fundus_image\<close>.  Exceptions of the Python code are values of \<open>py_error\<close>;
  a function that can raise returns \<open>py_error + 'a\<close>, with \<open>Inl\<close> for the exception.
  \<open>ConstructError\<close> stands for what \<open>Struct.parse\<close> of the construct library raises
  (a short read, or bytes that are not ASCII in a \<open>PaddedString\<close>).
\<close>

datatype py_error =
  ValueError | IndexError | KeyError | AttributeError | ConstructError | OverflowError

subsection \<open>Python strings of binary digits\<close>

definition bit_char :: "bool \<Rightarrow> char" where
  "bit_char b = (if b then CHR ''1'' else CHR ''0'')"

text \<open>\<open>bin(n)[2:]\<close>, which is also \<open>"{0:b}".format(n)\<close>, for \<open>n \<ge> 0\<close>.\<close>

fun bin_digits :: "nat \<Rightarrow> string" where
  "bin_digits n = (if n < 2 then [bit_char (n = 1)] else bin_digits (n div 2) @ [bit_char (odd n)])"

declare bin_digits.simps [simp del]

text \<open>\<open>s.zfill(w)\<close> on a string without a sign.\<close>

definition zfill :: "nat \<Rightarrow> string \<Rightarrow> string" where
  "zfill w s = replicate (w - length s) (CHR ''0'') @ s"

text \<open>\<open>"{0:016b}".format(n)\<close>.\<close>

definition format_016b :: "nat \<Rightarrow> string" where
  "format_016b n = zfill 16 (bin_digits n)"

text \<open>
  \<open>int(s, 2)\<close> on a string of binary digits; \<open>None\<close> is the \<open>ValueError\<close> that Python
  raises on the empty string and on any other character.
\<close>

definition int_base2 :: "string \<Rightarrow> nat option" where
  "int_base2 s =
     (if s = [] \<or> \<not> list_all (\<lambda>c. c = CHR ''0'' \<or> c = CHR ''1'') s then None
      else Some (foldl (\<lambda>acc c. 2 * acc + (if c = CHR ''1'' then 1 else 0)) 0 s))"

subsection \<open>The two decoders of the 16-bit float\<close>

text \<open>
  Both decoders return \<open>(1 + m / 1024) * 2 ** e\<close> with \<open>m < 1024\<close> and
  \<open>-63 \<le> e \<le> 0\<close>: a number with at most 11 significant bits and an exponent far inside
  the range of a double, so every floating-point operation involved is exact and the
  result is modelled as the rational it denotes.  \<open>pow2\<close> is \<open>pow(2, e)\<close> and
  \<open>np.float_power(2, e)\<close> on an integer \<open>e\<close>.
\<close>

definition pow2 :: "int \<Rightarrow> rat" where
  "pow2 e = (if 0 \<le> e then 2 ^ nat e else 1 / 2 ^ nat (- e))"

text \<open>\<open>self.power = pow(2, 10)\<close>.\<close>

definition self_power :: nat where
  "self_power = 2 ^ 10"

definition uint16_to_ufloat16 :: "nat \<Rightarrow> py_error + rat" where
  "uint16_to_ufloat16 uint16 =
     (let bits = rev (format_016b uint16);
          mantissa = take 10 bits;
          exponent = rev (drop 10 bits)
      in case int_base2 mantissa of
           None \<Rightarrow> Inl ValueError
         | Some m \<Rightarrow>
             (case int_base2 exponent of
                None \<Rightarrow> Inl ValueError
              | Some e \<Rightarrow> Inr ((1 + of_nat m / of_nat self_power) * pow2 (int e - 63))))"

definition read_custom_float :: "nat list \<Rightarrow> py_error + rat" where
  "read_custom_float bytes =
     (if length bytes < 2 then Inl IndexError
      else
        let bits = rev (zfill 8 (bin_digits (bytes ! 0))) @ rev (zfill 8 (bin_digits (bytes ! 1)));
            mantissa = take 10 bits;
            exponent = drop 10 bits
        in case int_base2 mantissa of
             None \<Rightarrow> Inl ValueError
           | Some m \<Rightarrow>
               (case int_base2 (rev exponent) of
                  None \<Rightarrow> Inl ValueError
                | Some e \<Rightarrow> Inr ((1 + of_nat m / of_nat self_power) * pow2 (int e - 63))))"

subsection \<open>The decode as the specification words it\<close>

text \<open>
  The reference of the specification, written from its sentences and not from the code:
  the two bytes of the little-endian value, each with its bits in reversed order (bit 0
  first), form a stream of 16 bits; the first 10, read as a binary number with the first
  bit most significant, are \<open>M\<close>; the remaining 6, reversed, are \<open>E\<close>; the value is
  \<open>(1 + M / 2^10) * 2^(E - 63)\<close>.
\<close>

definition bits_value :: "bool list \<Rightarrow> nat" where
  "bits_value bs = foldl (\<lambda>acc b. 2 * acc + (if b then 1 else 0)) 0 bs"

definition byte_bit :: "nat \<Rightarrow> nat \<Rightarrow> bool" where
  "byte_bit b i = odd (b div 2 ^ i)"

definition ufloat16_reference :: "nat \<Rightarrow> rat" where
  "ufloat16_reference u =
     (let byte0 = u mod 256;
          byte1 = u div 256;
          stream = map (byte_bit byte0) [0..<8] @ map (byte_bit byte1) [0..<8];
          M = bits_value (take 10 stream);
          E = bits_value (rev (drop 10 stream))
      in (1 + of_nat M / 2 ^ 10) * 2 powi (int E - 63))"

subsection \<open>Python values used by the reader\<close>

text \<open>
  A \<open>dict\<close> keeps its keys in insertion order, and the reader iterates over several of
  them, so a dict is an association list: \<open>map_of d k\<close> is the lookup, \<open>dict_set d k v\<close>
  is \<open>d[k] = v\<close> (an existing key keeps its place, a new key goes to the end).
\<close>

fun dict_set :: "('k \<times> 'v) list \<Rightarrow> 'k \<Rightarrow> 'v \<Rightarrow> ('k \<times> 'v) list" where
  "dict_set [] k v = [(k, v)]"
| "dict_set ((k', v') # d) k v = (if k' = k then (k, v) # d else (k', v') # dict_set d k v)"

text \<open>
  \<open>xs[i] = v\<close> on a list: a negative index counts from the end, an index out of range
  raises \<open>IndexError\<close>.
\<close>

definition py_index :: "nat \<Rightarrow> int \<Rightarrow> nat option" where
  "py_index n i =
     (let j = (if i < 0 then int n + i else i)
      in if 0 \<le> j \<and> j < int n then Some (nat j) else None)"

definition list_setitem :: "'a list \<Rightarrow> int \<Rightarrow> 'a \<Rightarrow> py_error + 'a list" where
  "list_setitem xs i v =
     (case py_index (length xs) i of
        None \<Rightarrow> Inl IndexError
      | Some j \<Rightarrow> Inr (xs[j := v]))"

text \<open>
  \<open>int(x)\<close> on a float truncates towards zero.  The reader applies it to
  \<open>slice_id / 2\<close>, a true division of a 32-bit integer, which is exact in a double; the
  quotient is modelled as a rational.
\<close>

definition py_int :: "rat \<Rightarrow> int" where
  "py_int x = (if 0 \<le> x then \<lfloor>x\<rfloor> else \<lceil>x\<rceil>)"

text \<open>\<open>str(n)\<close> for \<open>n \<ge> 0\<close>, as \<open>"{}".format(n)\<close> writes an unsigned field.\<close>

fun str_nat :: "nat \<Rightarrow> string" where
  "str_nat n =
     (if n < 10 then [''0123456789'' ! n]
      else str_nat (n div 10) @ [''0123456789'' ! (n mod 10)])"

declare str_nat.simps [simp del]

text \<open>\<open>"{}_{}_{}".format(patient_id, study_id, series_id)\<close>.\<close>

definition volume_string :: "nat \<Rightarrow> nat \<Rightarrow> nat \<Rightarrow> string" where
  "volume_string p s r = str_nat p @ ''_'' @ str_nat s @ ''_'' @ str_nat r"

subsection \<open>The records that the reader parses\<close>

text \<open>Only the fields that the reader uses are kept.\<close>

record main_directory =
  md_num_entries :: nat
  md_current :: nat
  md_prev :: nat

record sub_directory =
  sd_pos :: nat
  sd_start :: nat
  sd_size :: nat
  sd_patient_id :: nat
  sd_study_id :: nat
  sd_series_id :: nat
  sd_slice_id :: int

record chunk =
  ch_patient_id :: nat
  ch_study_id :: nat
  ch_series_id :: nat
  ch_slice_id :: int
  ch_ind :: nat
  ch_type :: nat

record image_header =
  im_width :: nat
  im_height :: nat

record patient_data =
  pd_first_name :: string
  pd_surname :: string
  pd_birthdate :: nat
  pd_sex :: string
  pd_patient_id :: string

record contour_header =
  co_id :: nat
  co_width :: nat

subsection \<open>The arrays\<close>

text \<open>
  The pixel and contour arrays are floating-point arrays; they are kept as the raw
  integers read from the file together with the shape, standing for the array that numpy
  computes from them: \<open>OctImage raw w h\<close> is
  \<open>256 * pow(LUT[raw].reshape(w, h), 1.0 / 2.4)\<close>, \<open>FundusImage raw h w\<close> is
  \<open>np.array(raw).reshape(h, w)\<close> and \<open>Contour raw\<close> is the float32 array of the 32-bit
  words \<open>raw\<close> with the entries below \<open>1e-9\<close> or equal to the largest float32 set to NaN.
  A slot of a volume is the integer \<open>0\<close> that \<open>[0] * n\<close> puts there, or an image.
\<close>

datatype oct_image = OctImage "nat list" nat nat

datatype fundus_image = FundusImage "nat list" nat nat

datatype contour = Contour "nat list"

datatype slot = PyInt int | Image oct_image

text \<open>\<open>isinstance(x, int)\<close> on a slot.\<close>

fun isinstance_int :: "slot \<Rightarrow> bool" where
  "isinstance_int (PyInt n) = True"
| "isinstance_int (Image a) = False"

subsection \<open>The file\<close>

text \<open>
  The decoding of bytes into records is the construct library's and numpy's; the file is
  given by what each read and parse of the reader yields at each offset:
  \<^item> \<open>file_header\<close>: whether the 36 bytes at offset 0 parse as the header;
  \<^item> \<open>file_main_directory\<close>: the parse of the 52 bytes that follow;
  \<^item> \<open>directory_at p\<close>: the parse of the 52 bytes at offset \<open>p\<close>;
  \<^item> \<open>entries_at p\<close>: the sub-directory records that follow this directory
    header, as many 44-byte records as the file holds there;
  \<^item> \<open>chunk_at p\<close>: the parse of the 60 bytes at \<open>p\<close> as a chunk header;
  \<^item> \<open>patient_at p\<close>, \<open>laterality_at p\<close>, \<open>contour_header_at p\<close>,
    \<open>image_header_at p\<close>: the parse of the bytes after the chunk header at \<open>p\<close> as
    the patient record, the laterality record (its \<open>laterality\<close> field), the contour
    header and the image header;
  \<^item> \<open>bscan_date_at p\<close>: the ordinal of the date of
    \<open>datetime(1600, 12, 31, 23, 59) + timedelta(seconds=acquisitionTime * 1e-7)\<close> for the
    104 bytes after the chunk header, or the exception raised by the parse or by the
    date arithmetic;
  \<^item> \<open>contour_words_at p w\<close>: the 32-bit words of \<open>f.read(w * 4)\<close> after the contour
    header, \<open>None\<close> when \<open>np.frombuffer\<close> raises (a length that is not a multiple of 4);
  \<^item> \<open>u16_at p\<close> and \<open>u8_at p\<close>: the 16-bit and 8-bit values that the file holds
    after the image header, up to its end.
  In all of them \<open>None\<close> is a parse that raises.
\<close>

record e2e_file =
  file_header :: bool
  file_main_directory :: "main_directory option"
  directory_at :: "nat \<Rightarrow> main_directory option"
  entries_at :: "nat \<Rightarrow> sub_directory list"
  chunk_at :: "nat \<Rightarrow> chunk option"
  patient_at :: "nat \<Rightarrow> patient_data option"
  bscan_date_at :: "nat \<Rightarrow> py_error + nat"
  laterality_at :: "nat \<Rightarrow> nat option"
  contour_header_at :: "nat \<Rightarrow> contour_header option"
  contour_words_at :: "nat \<Rightarrow> nat \<Rightarrow> nat list option"
  image_header_at :: "nat \<Rightarrow> image_header option"
  u16_at :: "nat \<Rightarrow> nat list"
  u8_at :: "nat \<Rightarrow> nat list"

subsection \<open>The object and its results\<close>

text \<open>
  The attributes of the \<open>E2E\<close> object that the two operations write.  \<open>__init__\<close> sets
  \<open>sex\<close>, \<open>first_name\<close>, \<open>surname\<close> and \<open>acquisition_date\<close> to \<open>None\<close>; it sets neither
  \<open>birthdate\<close> nor \<open>patient_id\<close>, so for these two \<open>None\<close> is an attribute that does not
  exist, and reading it raises \<open>AttributeError\<close>.
\<close>

record e2e_self =
  self_sex :: "string option"
  self_first_name :: "string option"
  self_surname :: "string option"
  self_acquisition_date :: "nat option"
  self_birthdate :: "rat option"
  self_patient_id :: "string option"

definition init_self :: e2e_self where
  "init_self =
     \<lparr>self_sex = None, self_first_name = None, self_surname = None,
      self_acquisition_date = None, self_birthdate = None, self_patient_id = None\<rparr>"

text \<open>
  Modelled from the spec: the classes \<open>OCTVolumeWithMetaData\<close> and
  \<open>FundusImageWithMetaData\<close> of \<open>oct_converter.image_types\<close>, which the reader imports and
  which are not among the sources (\<open>file_io/image_types.py\<close> is an earlier version of
  them, without the name, sex, date, id and contour fields).  The constructor stores its
  arguments, and \<open>num_slices\<close> is derived from the length of the slice sequence, as line
  19 of the earlier version does.
\<close>

record oct_volume =
  vol_volume :: "slot list"
  vol_patient_id :: string
  vol_first_name :: "string option"
  vol_surname :: "string option"
  vol_sex :: "string option"
  vol_acquisition_date :: "nat option"
  vol_volume_id :: string
  vol_laterality :: "string option"
  vol_contours :: "(string \<times> contour option list) list option"
  vol_num_slices :: nat

definition OCTVolumeWithMetaData ::
  "slot list \<Rightarrow> string \<Rightarrow> string option \<Rightarrow> string option \<Rightarrow> string option \<Rightarrow> nat option \<Rightarrow>
   string \<Rightarrow> string option \<Rightarrow> (string \<times> contour option list) list option \<Rightarrow> oct_volume" where
  "OCTVolumeWithMetaData volume patient_id first_name surname sex acquisition_date
     volume_id lat contours =
     \<lparr>vol_volume = volume, vol_patient_id = patient_id, vol_first_name = first_name,
      vol_surname = surname, vol_sex = sex, vol_acquisition_date = acquisition_date,
      vol_volume_id = volume_id, vol_laterality = lat, vol_contours = contours,
      vol_num_slices = length volume\<rparr>"

record fundus =
  fun_image :: fundus_image
  fun_patient_id :: string
  fun_image_id :: string
  fun_laterality :: "string option"

definition FundusImageWithMetaData ::
  "fundus_image \<Rightarrow> string \<Rightarrow> string \<Rightarrow> string option \<Rightarrow> fundus" where
  "FundusImageWithMetaData img patient_id image_id lat =
     \<lparr>fun_image = img, fun_patient_id = patient_id, fun_image_id = image_id,
      fun_laterality = lat\<rparr>"

subsection \<open>The first pass: the chain of main directories\<close>

text \<open>
  The loop \<open>while current != 0\<close> follows the \<open>prev\<close> links.  Nothing bounds it: on a
  chain that returns to a position already visited it does not end, which is the value
  \<open>None\<close> of the function.
\<close>

partial_function (option) traverse ::
  "e2e_file \<Rightarrow> nat \<Rightarrow> nat list \<Rightarrow> (py_error + nat list) option" where
  "traverse f current directory_stack =
     (if current = 0 then Some (Inr directory_stack)
      else case directory_at f current of
             None \<Rightarrow> Some (Inl ConstructError)
           | Some directory_chunk \<Rightarrow>
               traverse f (md_prev directory_chunk) (directory_stack @ [current]))"

subsection \<open>The second pass: the sub-directories\<close>

text \<open>
  The body of the loop over the entries of a directory: \<open>volume_dict\<close> keeps for each
  volume string the largest \<open>slice_id / 2\<close> seen, and an entry with \<open>start > pos\<close> is
  pushed on \<open>chunk_stack\<close>.
\<close>

definition push_chunk :: "sub_directory \<Rightarrow> (nat \<times> nat) list \<Rightarrow> (nat \<times> nat) list" where
  "push_chunk chunk chunk_stack =
     (if sd_start chunk > sd_pos chunk then chunk_stack @ [(sd_start chunk, sd_size chunk)]
      else chunk_stack)"

definition sd_volume_string :: "sub_directory \<Rightarrow> string" where
  "sd_volume_string chunk =
     volume_string (sd_patient_id chunk) (sd_study_id chunk) (sd_series_id chunk)"

definition sd_half :: "sub_directory \<Rightarrow> rat" where
  "sd_half chunk = of_int (sd_slice_id chunk) / 2"

definition update_volume_dict ::
  "(string \<times> rat) list \<Rightarrow> sub_directory \<Rightarrow> (string \<times> rat) list" where
  "update_volume_dict volume_dict chunk =
     (case map_of volume_dict (sd_volume_string chunk) of
        None \<Rightarrow> dict_set volume_dict (sd_volume_string chunk) (sd_half chunk)
      | Some m \<Rightarrow>
          if sd_half chunk > m
          then dict_set volume_dict (sd_volume_string chunk) (sd_half chunk)
          else volume_dict)"

definition sub_directory_entry ::
  "(string \<times> rat) list \<times> (nat \<times> nat) list \<Rightarrow> sub_directory \<Rightarrow>
   (string \<times> rat) list \<times> (nat \<times> nat) list" where
  "sub_directory_entry acc chunk =
     (update_volume_dict (fst acc) chunk, push_chunk chunk (snd acc))"

fun second_pass ::
  "e2e_file \<Rightarrow> nat list \<Rightarrow> (string \<times> rat) list \<times> (nat \<times> nat) list \<Rightarrow>
   py_error + (string \<times> rat) list \<times> (nat \<times> nat) list" where
  "second_pass f [] acc = Inr acc"
| "second_pass f (position # rest) acc =
     (case directory_at f position of
        None \<Rightarrow> Inl ConstructError
      | Some directory_chunk \<Rightarrow>
          if length (entries_at f position) < md_num_entries directory_chunk
          then Inl ConstructError
          else second_pass f rest
                 (foldl sub_directory_entry acc
                    (take (md_num_entries directory_chunk) (entries_at f position))))"

text \<open>The second pass of \<open>read_fundus_image\<close> collects the chunk stack only.\<close>

fun fundus_second_pass ::
  "e2e_file \<Rightarrow> nat list \<Rightarrow> (nat \<times> nat) list \<Rightarrow> py_error + (nat \<times> nat) list" where
  "fundus_second_pass f [] chunk_stack = Inr chunk_stack"
| "fundus_second_pass f (position # rest) chunk_stack =
     (case directory_at f position of
        None \<Rightarrow> Inl ConstructError
      | Some directory_chunk \<Rightarrow>
          if length (entries_at f position) < md_num_entries directory_chunk
          then Inl ConstructError
          else fundus_second_pass f rest
                 (foldl (\<lambda>cs chunk. push_chunk chunk cs) chunk_stack
                    (take (md_num_entries directory_chunk) (entries_at f position))))"

text \<open>
  \<open>for volume, num_slices in volume_dict.items(): if num_slices > 0:
  volume_array_dict[volume] = [0] * int(num_slices + 1)\<close>.
\<close>

fun init_volume_array_dict ::
  "(string \<times> slot list) list \<Rightarrow> (string \<times> rat) list \<Rightarrow> (string \<times> slot list) list" where
  "init_volume_array_dict volume_array_dict [] = volume_array_dict"
| "init_volume_array_dict volume_array_dict ((volume, num_slices) # rest) =
     init_volume_array_dict
       (if num_slices > 0
        then dict_set volume_array_dict volume (replicate (nat (py_int (num_slices + 1))) (PyInt 0))
        else volume_array_dict)
       rest"

subsection \<open>The chunk loop of \<open>read_oct_volume\<close>\<close>

text \<open>
  The local variables and the object that the loop over \<open>chunk_stack\<close> changes.
  Warnings are not part of the state.
\<close>

record oct_state =
  self :: e2e_self
  volume_array_dict :: "(string \<times> slot list) list"
  volume_array_dict_additional :: "(string \<times> slot list) list"
  laterality_dict :: "(string \<times> string) list"
  laterality :: "string option"
  contour_dict :: "(string \<times> (string \<times> (int \<times> contour) list) list) list"

datatype flow = Continue | Break

definition ch_volume_string :: "chunk \<Rightarrow> string" where
  "ch_volume_string chunk =
     volume_string (ch_patient_id chunk) (ch_study_id chunk) (ch_series_id chunk)"

text \<open>\<open>int(chunk.slice_id / 2) - 1\<close>.\<close>

definition slice_index :: "chunk \<Rightarrow> int" where
  "slice_index chunk = py_int (of_int (ch_slice_id chunk) / 2) - 1"

text \<open>Chunk type 9, the same lines in both operations: a parse that raises is passed over.\<close>

definition patient_chunk :: "e2e_file \<Rightarrow> nat \<Rightarrow> e2e_self \<Rightarrow> e2e_self" where
  "patient_chunk f start slf =
     (case patient_at f start of
        None \<Rightarrow> slf
      | Some patient_data \<Rightarrow>
          slf\<lparr>self_sex := Some (pd_sex patient_data),
              self_first_name := Some (pd_first_name patient_data),
              self_surname := Some (pd_surname patient_data),
              self_birthdate := Some (of_nat (pd_birthdate patient_data) / 64 - 14558805),
              self_patient_id := Some (pd_patient_id patient_data)\<rparr>)"

text \<open>Chunk type 10004: the parse and the date arithmetic are outside any \<open>try\<close>.\<close>

definition bscan_chunk :: "e2e_file \<Rightarrow> nat \<Rightarrow> e2e_self \<Rightarrow> py_error + e2e_self" where
  "bscan_chunk f start slf =
     (case bscan_date_at f start of
        Inl e \<Rightarrow> Inl e
      | Inr acquisition_date \<Rightarrow>
          if self_acquisition_date slf = None
          then Inr (slf\<lparr>self_acquisition_date := Some acquisition_date\<rparr>)
          else Inr slf)"

text \<open>
  Chunk type 11, the same lines in both operations; the value is the new content of the
  local variable \<open>laterality\<close>.
\<close>

definition laterality_chunk :: "e2e_file \<Rightarrow> nat \<Rightarrow> string option \<Rightarrow> string option" where
  "laterality_chunk f start lat =
     (case laterality_at f start of
        None \<Rightarrow> None
      | Some code \<Rightarrow>
          if code = 82 then Some ''R''
          else if code = 76 then Some ''L''
          else lat)"

text \<open>
  Chunk type 10019.  \<open>contour_dict\<close> is a \<open>defaultdict\<close> of \<open>defaultdict\<close>s of dicts: a
  missing key is created on the way.
\<close>

definition contour_dict_set ::
  "(string \<times> (string \<times> (int \<times> contour) list) list) list \<Rightarrow> string \<Rightarrow> string \<Rightarrow> int \<Rightarrow>
   contour \<Rightarrow> (string \<times> (string \<times> (int \<times> contour) list) list) list" where
  "contour_dict_set cd vs contour_name slice_id c =
     (let inner = (case map_of cd vs of None \<Rightarrow> [] | Some m \<Rightarrow> m);
          slices = (case map_of inner contour_name of None \<Rightarrow> [] | Some d \<Rightarrow> d)
      in dict_set cd vs (dict_set inner contour_name (dict_set slices slice_id c)))"

definition contour_chunk ::
  "e2e_file \<Rightarrow> nat \<Rightarrow> chunk \<Rightarrow> oct_state \<Rightarrow> py_error + oct_state" where
  "contour_chunk f start chunk s =
     (case contour_header_at f start of
        None \<Rightarrow> Inl ConstructError
      | Some contour_data \<Rightarrow>
          if co_width contour_data > 0 then
            (case contour_words_at f start (co_width contour_data) of
               None \<Rightarrow> Inr s
             | Some raw_volume \<Rightarrow>
                 Inr (s\<lparr>contour_dict :=
                          contour_dict_set (contour_dict s) (ch_volume_string chunk)
                            (''contour'' @ str_nat (co_id contour_data)) (slice_index chunk)
                            (Contour raw_volume)\<rparr>))
          else Inr s)"

text \<open>
  Chunk type 1073741824.  \<open>np.fromfile(f, dtype=np.uint16, count=count)\<close> returns at most
  \<open>count\<close> values, fewer at the end of the file, and then the \<open>reshape\<close> raises, which the
  code turns into a warning.  \<open>np.fromfile\<close> is outside the \<open>try\<close> and takes the count as a
  C \<open>ssize_t\<close>: a product \<open>width * height\<close> beyond that range, which is more values than
  a file holds, makes it raise \<open>OverflowError\<close>; the model is of the counts in that range,
  and the properties of this branch below are stated for a file that holds \<open>count\<close>
  values.  A truthy \<open>laterality\<close> is a non-empty string.
\<close>

definition store_image :: "oct_state \<Rightarrow> chunk \<Rightarrow> slot \<Rightarrow> py_error + oct_state" where
  "store_image s chunk img =
     (case map_of (volume_array_dict s) (ch_volume_string chunk) of
        Some volume \<Rightarrow>
          (case list_setitem volume (slice_index chunk) img of
             Inl e \<Rightarrow> Inl e
           | Inr volume' \<Rightarrow>
               Inr (s\<lparr>volume_array_dict :=
                        dict_set (volume_array_dict s) (ch_volume_string chunk) volume'\<rparr>))
      | None \<Rightarrow>
          (case map_of (volume_array_dict_additional s) (ch_volume_string chunk) of
             Some images \<Rightarrow>
               Inr (s\<lparr>volume_array_dict_additional :=
                        dict_set (volume_array_dict_additional s) (ch_volume_string chunk)
                          (images @ [img])\<rparr>)
           | None \<Rightarrow>
               Inr (s\<lparr>volume_array_dict_additional :=
                        dict_set (volume_array_dict_additional s) (ch_volume_string chunk)
                          [img]\<rparr>)))"

definition bind_laterality :: "oct_state \<Rightarrow> chunk \<Rightarrow> oct_state" where
  "bind_laterality s chunk =
     (case laterality s of
        None \<Rightarrow> s
      | Some l \<Rightarrow>
          if l \<noteq> [] \<and> map_of (laterality_dict s) (ch_volume_string chunk) = None
          then s\<lparr>laterality_dict := dict_set (laterality_dict s) (ch_volume_string chunk) l\<rparr>
          else s)"

definition image_chunk ::
  "e2e_file \<Rightarrow> nat \<Rightarrow> chunk \<Rightarrow> oct_state \<Rightarrow> py_error + flow \<times> oct_state" where
  "image_chunk f start chunk s =
     (case image_header_at f start of
        None \<Rightarrow> Inl ConstructError
      | Some image_data \<Rightarrow>
          if ch_ind chunk = 1 then
            (let count = im_height image_data * im_width image_data in
             if count = 0 then Inr (Break, s)
             else
               let raw_volume = take count (u16_at f start) in
               if length raw_volume \<noteq> im_width image_data * im_height image_data
               then Inr (Continue, s)
               else
                 (case store_image s chunk
                         (Image (OctImage raw_volume (im_width image_data) (im_height image_data))) of
                    Inl e \<Rightarrow> Inl e
                  | Inr s' \<Rightarrow> Inr (Continue, bind_laterality s' chunk)))
          else Inr (Continue, s))"

text \<open>One iteration of \<open>for start, pos in chunk_stack\<close>.\<close>

definition oct_chunk :: "e2e_file \<Rightarrow> nat \<Rightarrow> oct_state \<Rightarrow> py_error + flow \<times> oct_state" where
  "oct_chunk f start s =
     (case chunk_at f start of
        None \<Rightarrow> Inl ConstructError
      | Some chunk \<Rightarrow>
          if ch_type chunk = 9 then Inr (Continue, s\<lparr>self := patient_chunk f start (self s)\<rparr>)
          else if ch_type chunk = 10004 then
            (case bscan_chunk f start (self s) of
               Inl e \<Rightarrow> Inl e
             | Inr slf \<Rightarrow> Inr (Continue, s\<lparr>self := slf\<rparr>))
          else if ch_type chunk = 11 then
            Inr (Continue, s\<lparr>laterality := laterality_chunk f start (laterality s)\<rparr>)
          else if ch_type chunk = 10019 then
            (case contour_chunk f start chunk s of
               Inl e \<Rightarrow> Inl e
             | Inr s' \<Rightarrow> Inr (Continue, s'))
          else if ch_type chunk = 1073741824 then image_chunk f start chunk s
          else Inr (Continue, s))"

fun oct_chunks :: "e2e_file \<Rightarrow> (nat \<times> nat) list \<Rightarrow> oct_state \<Rightarrow> py_error + oct_state" where
  "oct_chunks f [] s = Inr s"
| "oct_chunks f ((start, pos) # rest) s =
     (case oct_chunk f start s of
        Inl e \<Rightarrow> Inl e
      | Inr (Break, s') \<Rightarrow> Inr s'
      | Inr (Continue, s') \<Rightarrow> oct_chunks f rest s')"

subsection \<open>The contours of the result\<close>

text \<open>
  \<open>[None] * (num_slices or len(v))\<close>: \<open>num_slices\<close> is \<open>None\<close> for a volume id that is not
  in \<open>volume_dict\<close>, and \<open>or\<close> also takes its right operand when the left one is \<open>0\<close>; a
  negative factor gives the empty list.
\<close>

definition contour_slots :: "int option \<Rightarrow> (int \<times> contour) list \<Rightarrow> contour option list" where
  "contour_slots num_slices v =
     replicate
       (nat (case num_slices of
               None \<Rightarrow> int (length v)
             | Some n \<Rightarrow> if n = 0 then int (length v) else n))
       None"

text \<open>\<open>for slice_id, contour in contour_values.items(): xs[slice_id] = contour\<close>.\<close>

fun write_slices ::
  "contour option list \<Rightarrow> (int \<times> contour) list \<Rightarrow> py_error + contour option list" where
  "write_slices xs [] = Inr xs"
| "write_slices xs ((slice_id, c) # rest) =
     (case list_setitem xs slice_id (Some c) of
        Inl e \<Rightarrow> Inl e
      | Inr xs' \<Rightarrow> write_slices xs' rest)"

text \<open>\<open>for contour_name, contour_values in contours.items()\<close>.\<close>

fun write_contours ::
  "(string \<times> contour option list) list \<Rightarrow> (string \<times> (int \<times> contour) list) list \<Rightarrow>
   py_error + (string \<times> contour option list) list" where
  "write_contours cd [] = Inr cd"
| "write_contours cd ((contour_name, contour_values) # rest) =
     (case map_of cd contour_name of
        None \<Rightarrow> Inl KeyError
      | Some xs \<Rightarrow>
          (case write_slices xs contour_values of
             Inl e \<Rightarrow> Inl e
           | Inr xs' \<Rightarrow> write_contours (dict_set cd contour_name xs') rest))"

definition volume_contours ::
  "(string \<times> rat) list \<Rightarrow> string \<Rightarrow> (string \<times> (int \<times> contour) list) list \<Rightarrow>
   py_error + (string \<times> contour option list) list" where
  "volume_contours volume_dict volume_id contours =
     (let num_slices = (case map_of volume_dict volume_id of
                          Some m \<Rightarrow> Some (py_int m + 1)
                        | None \<Rightarrow> None)
      in write_contours (map (\<lambda>(k, v). (k, contour_slots num_slices v)) contours) contours)"

text \<open>\<open>for volume_id, contours in contour_dict.items()\<close>.\<close>

fun build_contour_data ::
  "(string \<times> rat) list \<Rightarrow> (string \<times> (string \<times> contour option list) list) list \<Rightarrow>
   (string \<times> (string \<times> (int \<times> contour) list) list) list \<Rightarrow>
   py_error + (string \<times> (string \<times> contour option list) list) list" where
  "build_contour_data volume_dict contour_data [] = Inr contour_data"
| "build_contour_data volume_dict contour_data ((volume_id, contours) # rest) =
     (case volume_contours volume_dict volume_id contours of
        Inl e \<Rightarrow> Inl e
      | Inr cd \<Rightarrow> build_contour_data volume_dict (dict_set contour_data volume_id cd) rest)"

subsection \<open>The volumes of the result\<close>

text \<open>
  The loop over \<open>chain(volume_array_dict.items(), volume_array_dict_additional.items())\<close>.
  \<open>volume[0]\<close> raises on an empty list, and \<open>self.patient_id\<close> raises when no patient
  chunk has set the attribute.
\<close>

fun collect_volumes ::
  "e2e_self \<Rightarrow> (string \<times> string) list \<Rightarrow> (string \<times> (string \<times> contour option list) list) list \<Rightarrow>
   oct_volume list \<Rightarrow> (string \<times> slot list) list \<Rightarrow> py_error + oct_volume list" where
  "collect_volumes slf lat_dict contour_data oct_volumes [] = Inr oct_volumes"
| "collect_volumes slf lat_dict contour_data oct_volumes ((key, volume) # rest) =
     (case volume of
        [] \<Rightarrow> Inl IndexError
      | first # _ \<Rightarrow>
          if isinstance_int first
          then collect_volumes slf lat_dict contour_data oct_volumes rest
          else
            (case self_patient_id slf of
               None \<Rightarrow> Inl AttributeError
             | Some patient_id \<Rightarrow>
                 collect_volumes slf lat_dict contour_data
                   (oct_volumes @
                    [OCTVolumeWithMetaData volume patient_id (self_first_name slf)
                       (self_surname slf) (self_sex slf) (self_acquisition_date slf) key
                       (map_of lat_dict key) (map_of contour_data key)])
                   rest))"

subsection \<open>\<open>read_oct_volume\<close>\<close>

definition init_oct_state :: "e2e_self \<Rightarrow> (string \<times> rat) list \<Rightarrow> oct_state" where
  "init_oct_state slf volume_dict =
     \<lparr>self = slf,
      volume_array_dict = init_volume_array_dict [] volume_dict,
      volume_array_dict_additional = [],
      laterality_dict = [],
      laterality = None,
      contour_dict = []\<rparr>"

text \<open>What follows the two passes: the chunk loop, the contours and the volumes.\<close>

definition extract_volumes ::
  "e2e_file \<Rightarrow> e2e_self \<Rightarrow> (string \<times> rat) list \<Rightarrow> (nat \<times> nat) list \<Rightarrow>
   py_error + oct_volume list \<times> e2e_self" where
  "extract_volumes f slf volume_dict chunk_stack =
     (case oct_chunks f chunk_stack (init_oct_state slf volume_dict) of
        Inl e \<Rightarrow> Inl e
      | Inr s \<Rightarrow>
          (case build_contour_data volume_dict [] (contour_dict s) of
             Inl e \<Rightarrow> Inl e
           | Inr contour_data \<Rightarrow>
               (case collect_volumes (self s) (laterality_dict s) contour_data []
                       (volume_array_dict s @ volume_array_dict_additional s) of
                  Inl e \<Rightarrow> Inl e
                | Inr oct_volumes \<Rightarrow> Inr (oct_volumes, self s))))"

text \<open>
  The operation takes the object as it is before the call and returns the volumes with
  the object as it is after; \<open>None\<close> is a call that does not return.  The lookup table of
  the 16-bit floats, built first, is inside \<open>OctImage\<close>.
\<close>

definition read_oct_volume ::
  "e2e_self \<Rightarrow> e2e_file \<Rightarrow> (py_error + oct_volume list \<times> e2e_self) option" where
  "read_oct_volume slf f =
     (if \<not> file_header f then Some (Inl ConstructError)
      else case file_main_directory f of
        None \<Rightarrow> Some (Inl ConstructError)
      | Some main_directory \<Rightarrow>
          (case traverse f (md_current main_directory) [] of
             None \<Rightarrow> None
           | Some (Inl e) \<Rightarrow> Some (Inl e)
           | Some (Inr directory_stack) \<Rightarrow>
               (case second_pass f directory_stack ([], []) of
                  Inl e \<Rightarrow> Some (Inl e)
                | Inr (volume_dict, chunk_stack) \<Rightarrow>
                    Some (extract_volumes f slf volume_dict chunk_stack))))"

subsection \<open>\<open>read_fundus_image\<close>\<close>

record fundus_state =
  fs_self :: e2e_self
  image_array_dict :: "(string \<times> fundus_image) list"
  fs_laterality_dict :: "(string \<times> string option) list"
  fs_laterality :: "string option"

text \<open>\<open>sys.maxsize\<close>, the largest C \<open>ssize_t\<close>, on a 64-bit platform.\<close>

definition ssize_t_max :: nat where
  "ssize_t_max = 2 ^ 63 - 1"

text \<open>
  The image branch: the size is tested before \<open>ind\<close>, and the read and the \<open>reshape\<close> are
  outside any \<open>try\<close>: \<open>f.read(count)\<close> raises \<open>OverflowError\<close> on a count that does not fit a
  C \<open>ssize_t\<close>, and after a short read the \<open>reshape\<close> raises \<open>ValueError\<close>.
\<close>

definition fundus_image_chunk ::
  "e2e_file \<Rightarrow> nat \<Rightarrow> chunk \<Rightarrow> fundus_state \<Rightarrow> py_error + flow \<times> fundus_state" where
  "fundus_image_chunk f start chunk s =
     (case image_header_at f start of
        None \<Rightarrow> Inl ConstructError
      | Some image_data \<Rightarrow>
          (let count = im_height image_data * im_width image_data in
           if count = 0 then Inr (Break, s)
           else if ch_ind chunk = 0 then
             if count > ssize_t_max then Inl OverflowError
             else
             (let raw_volume = take count (u8_at f start) in
              if length raw_volume \<noteq> im_height image_data * im_width image_data
              then Inl ValueError
              else
                Inr (Continue,
                     s\<lparr>image_array_dict :=
                         dict_set (image_array_dict s) (ch_volume_string chunk)
                           (FundusImage raw_volume (im_height image_data) (im_width image_data)),
                       fs_laterality_dict :=
                         dict_set (fs_laterality_dict s) (ch_volume_string chunk)
                           (fs_laterality s)\<rparr>))
           else Inr (Continue, s)))"

text \<open>
  One iteration of the chunk loop: three \<open>if\<close> statements in a row, of which at most one
  applies, since they test the same \<open>chunk.type\<close> against different constants.
\<close>

definition fundus_chunk ::
  "e2e_file \<Rightarrow> nat \<Rightarrow> fundus_state \<Rightarrow> py_error + flow \<times> fundus_state" where
  "fundus_chunk f start s =
     (case chunk_at f start of
        None \<Rightarrow> Inl ConstructError
      | Some chunk \<Rightarrow>
          (let s1 = (if ch_type chunk = 9 then s\<lparr>fs_self := patient_chunk f start (fs_self s)\<rparr>
                     else s);
               s2 = (if ch_type chunk = 11
                     then s1\<lparr>fs_laterality := laterality_chunk f start (fs_laterality s1)\<rparr>
                     else s1)
           in if ch_type chunk = 1073741824 then fundus_image_chunk f start chunk s2
              else Inr (Continue, s2)))"

fun fundus_chunks ::
  "e2e_file \<Rightarrow> (nat \<times> nat) list \<Rightarrow> fundus_state \<Rightarrow> py_error + fundus_state" where
  "fundus_chunks f [] s = Inr s"
| "fundus_chunks f ((start, pos) # rest) s =
     (case fundus_chunk f start s of
        Inl e \<Rightarrow> Inl e
      | Inr (Break, s') \<Rightarrow> Inr s'
      | Inr (Continue, s') \<Rightarrow> fundus_chunks f rest s')"

fun collect_fundus ::
  "e2e_self \<Rightarrow> (string \<times> string option) list \<Rightarrow> fundus list \<Rightarrow>
   (string \<times> fundus_image) list \<Rightarrow> py_error + fundus list" where
  "collect_fundus slf lat_dict fundus_images [] = Inr fundus_images"
| "collect_fundus slf lat_dict fundus_images ((key, img) # rest) =
     (case self_patient_id slf of
        None \<Rightarrow> Inl AttributeError
      | Some patient_id \<Rightarrow>
          collect_fundus slf lat_dict
            (fundus_images @
             [FundusImageWithMetaData img patient_id key
                (case map_of lat_dict key of Some l \<Rightarrow> l | None \<Rightarrow> None)])
            rest)"

definition init_fundus_state :: "e2e_self \<Rightarrow> fundus_state" where
  "init_fundus_state slf =
     \<lparr>fs_self = slf, image_array_dict = [], fs_laterality_dict = [], fs_laterality = None\<rparr>"

definition read_fundus_image ::
  "e2e_self \<Rightarrow> e2e_file \<Rightarrow> (py_error + fundus list \<times> e2e_self) option" where
  "read_fundus_image slf f =
     (if \<not> file_header f then Some (Inl ConstructError)
      else case file_main_directory f of
        None \<Rightarrow> Some (Inl ConstructError)
      | Some main_directory \<Rightarrow>
          (case traverse f (md_current main_directory) [] of
             None \<Rightarrow> None
           | Some (Inl e) \<Rightarrow> Some (Inl e)
           | Some (Inr directory_stack) \<Rightarrow>
               (case fundus_second_pass f directory_stack [] of
                  Inl e \<Rightarrow> Some (Inl e)
                | Inr chunk_stack \<Rightarrow>
                    (case fundus_chunks f chunk_stack (init_fundus_state slf) of
                       Inl e \<Rightarrow> Some (Inl e)
                     | Inr s \<Rightarrow>
                         (case collect_fundus (fs_self s) (fs_laterality_dict s) []
                                 (image_array_dict s) of
                            Inl e \<Rightarrow> Some (Inl e)
                          | Inr fundus_images \<Rightarrow> Some (Inr (fundus_images, fs_self s)))))))"

subsection \<open>Notions used to state the properties\<close>

text \<open>
  The sub-directory entries that the second pass reads: for each directory of the stack,
  its first \<open>num_entries\<close> records.
\<close>

definition scanned_entries :: "e2e_file \<Rightarrow> nat list \<Rightarrow> sub_directory list" where
  "scanned_entries f directory_stack =
     concat (map (\<lambda>position. case directory_at f position of
                                 None \<Rightarrow> []
                               | Some directory_chunk \<Rightarrow>
                                   take (md_num_entries directory_chunk) (entries_at f position))
                 directory_stack)"

text \<open>The largest \<open>slice_id / 2\<close> among the entries with the volume string \<open>k\<close>.\<close>

definition max_half :: "sub_directory list \<Rightarrow> string \<Rightarrow> rat" where
  "max_half entries k = Max (set (map sd_half (filter (\<lambda>c. sd_volume_string c = k) entries)))"

text \<open>
  The keys of a dict of lists with the length of each list.  The chunk loop never
  changes this for \<open>volume_array_dict\<close>: it only assigns to existing slots.
\<close>

definition shape :: "('k \<times> 'a list) list \<Rightarrow> ('k \<times> nat) list" where
  "shape d = map (\<lambda>(k, xs). (k, length xs)) d"





subsection \<open>Example files\<close>

text \<open>
  Small files on which the properties below are evaluated.  A view that the reader does
  not consult for a chunk of the given type is left at \<open>None\<close>.  \<open>blank_file\<close> has valid
  headers and an empty chain of directories.
\<close>

definition blank_file :: e2e_file where
  "blank_file =
     \<lparr>file_header = True,
      file_main_directory = Some \<lparr>md_num_entries = 0, md_current = 0, md_prev = 0\<rparr>,
      directory_at = (\<lambda>p. None),
      entries_at = (\<lambda>p. []),
      chunk_at = (\<lambda>p. None),
      patient_at = (\<lambda>p. None),
      bscan_date_at = (\<lambda>p. Inl ConstructError),
      laterality_at = (\<lambda>p. None),
      contour_header_at = (\<lambda>p. None),
      contour_words_at = (\<lambda>p w. None),
      image_header_at = (\<lambda>p. None),
      u16_at = (\<lambda>p. []),
      u8_at = (\<lambda>p. [])\<rparr>"

definition image_type :: nat where
  "image_type = 1073741824"

text \<open>
  One directory at offset 100 with three entries: a patient chunk at 1000, the B-scan
  with \<open>slice_id = 2\<close> of the volume \<open>1_2_3\<close> at 2000 (2 by 1 pixels), and an entry with
  \<open>slice_id = 4\<close> of the same volume that points to no chunk (\<open>start = pos\<close>).
\<close>

definition one_volume_entries :: "sub_directory list" where
  "one_volume_entries =
     [\<lparr>sd_pos = 0, sd_start = 1000, sd_size = 127, sd_patient_id = 1, sd_study_id = 0,
       sd_series_id = 0, sd_slice_id = - 1\<rparr>,
      \<lparr>sd_pos = 0, sd_start = 2000, sd_size = 24, sd_patient_id = 1, sd_study_id = 2,
       sd_series_id = 3, sd_slice_id = 2\<rparr>,
      \<lparr>sd_pos = 0, sd_start = 0, sd_size = 0, sd_patient_id = 1, sd_study_id = 2,
       sd_series_id = 3, sd_slice_id = 4\<rparr>]"

definition one_volume_file :: e2e_file where
  "one_volume_file =
     blank_file
       \<lparr>file_main_directory := Some \<lparr>md_num_entries = 3, md_current = 100, md_prev = 0\<rparr>,
        directory_at := (\<lambda>p. if p = 100
                               then Some \<lparr>md_num_entries = 3, md_current = 100, md_prev = 0\<rparr>
                               else None),
        entries_at := (\<lambda>p. if p = 100 then one_volume_entries else []),
        chunk_at := (\<lambda>p.
           if p = 1000 then Some \<lparr>ch_patient_id = 1, ch_study_id = 0, ch_series_id = 0,
                                    ch_slice_id = - 1, ch_ind = 0, ch_type = 9\<rparr>
           else if p = 2000 then Some \<lparr>ch_patient_id = 1, ch_study_id = 2, ch_series_id = 3,
                                        ch_slice_id = 2, ch_ind = 1, ch_type = image_type\<rparr>
           else None),
        patient_at := (\<lambda>p. if p = 1000
                             then Some \<lparr>pd_first_name = ''A'', pd_surname = ''B'',
                                        pd_birthdate = 0, pd_sex = ''F'', pd_patient_id = ''P1''\<rparr>
                             else None),
        image_header_at := (\<lambda>p. if p = 2000 then Some \<lparr>im_width = 2, im_height = 1\<rparr> else None),
        u16_at := (\<lambda>p. if p = 2000 then [7, 9] else [])\<rparr>"

text \<open>The same file with a patient record that does not decode.\<close>

definition no_patient_file :: e2e_file where
  "no_patient_file = one_volume_file\<lparr>patient_at := (\<lambda>p. None)\<rparr>"

text \<open>
  Chunks for the loop of the two operations:
  \<^item> at 2000 a B-scan of volume \<open>1_2_3\<close> with \<open>slice_id = 0\<close>, 1 by 1 pixel;
  \<^item> at 3000 an image chunk of size 0 with \<open>ind = 0\<close>, at 3100 one with \<open>ind = 1\<close>,
    at 3200 an image chunk of 1 by 1 pixel with \<open>ind = 0\<close>;
  \<^item> at 4000 a laterality chunk with the code 0, at 4100 one with the code 82 (R);
  \<^item> at 5000, 5100 and 5200 three contours \<open>contour0\<close> whose chunk headers name the
    volume \<open>9_9_9\<close>, which no sub-directory entry names, with the \<open>slice_id\<close>s 0, 2 and
    -2; at 5300 a contour \<open>contour1\<close> of volume \<open>1_2_3\<close> with \<open>slice_id = 2\<close>.
\<close>

definition chunks_file :: e2e_file where
  "chunks_file =
     blank_file
       \<lparr>directory_at := (\<lambda>p. if p = 100
                               then Some \<lparr>md_num_entries = 1, md_current = 100, md_prev = 0\<rparr>
                               else if p = 200
                               then Some \<lparr>md_num_entries = 4, md_current = 200, md_prev = 100\<rparr>
                               else None),
        entries_at := (\<lambda>p.
           if p = 100 then [\<lparr>sd_pos = 0, sd_start = 2000, sd_size = 22, sd_patient_id = 1,
                              sd_study_id = 2, sd_series_id = 3, sd_slice_id = 0\<rparr>]
           else if p = 200 then [\<lparr>sd_pos = 0, sd_start = 5000, sd_size = 20, sd_patient_id = 1,
                                   sd_study_id = 2, sd_series_id = 3, sd_slice_id = 2\<rparr>,
                                 \<lparr>sd_pos = 0, sd_start = 5100, sd_size = 20, sd_patient_id = 1,
                                   sd_study_id = 2, sd_series_id = 3, sd_slice_id = 4\<rparr>,
                                 \<lparr>sd_pos = 0, sd_start = 5200, sd_size = 20, sd_patient_id = 1,
                                   sd_study_id = 2, sd_series_id = 3, sd_slice_id = 4\<rparr>,
                                 \<lparr>sd_pos = 0, sd_start = 5300, sd_size = 20, sd_patient_id = 1,
                                   sd_study_id = 2, sd_series_id = 3, sd_slice_id = 2\<rparr>]
           else []),
        chunk_at := (\<lambda>p.
           if p = 2000 then Some \<lparr>ch_patient_id = 1, ch_study_id = 2, ch_series_id = 3,
                                    ch_slice_id = 0, ch_ind = 1, ch_type = image_type\<rparr>
           else if p = 3000 then Some \<lparr>ch_patient_id = 1, ch_study_id = 2, ch_series_id = 4,
                                        ch_slice_id = 0, ch_ind = 0, ch_type = image_type\<rparr>
           else if p = 3100 then Some \<lparr>ch_patient_id = 1, ch_study_id = 2, ch_series_id = 5,
                                        ch_slice_id = 0, ch_ind = 1, ch_type = image_type\<rparr>
           else if p = 3200 then Some \<lparr>ch_patient_id = 1, ch_study_id = 2, ch_series_id = 6,
                                        ch_slice_id = 0, ch_ind = 0, ch_type = image_type\<rparr>
           else if p = 4000 then Some \<lparr>ch_patient_id = 1, ch_study_id = 2, ch_series_id = 3,
                                        ch_slice_id = 0, ch_ind = 0, ch_type = 11\<rparr>
           else if p = 4100 then Some \<lparr>ch_patient_id = 1, ch_study_id = 2, ch_series_id = 3,
                                        ch_slice_id = 0, ch_ind = 0, ch_type = 11\<rparr>
           else if p = 5000 then Some \<lparr>ch_patient_id = 9, ch_study_id = 9, ch_series_id = 9,
                                        ch_slice_id = 0, ch_ind = 0, ch_type = 10019\<rparr>
           else if p = 5100 then Some \<lparr>ch_patient_id = 9, ch_study_id = 9, ch_series_id = 9,
                                        ch_slice_id = 2, ch_ind = 0, ch_type = 10019\<rparr>
           else if p = 5200 then Some \<lparr>ch_patient_id = 9, ch_study_id = 9, ch_series_id = 9,
                                        ch_slice_id = - 2, ch_ind = 0, ch_type = 10019\<rparr>
           else if p = 5300 then Some \<lparr>ch_patient_id = 1, ch_study_id = 2, ch_series_id = 3,
                                        ch_slice_id = 2, ch_ind = 0, ch_type = 10019\<rparr>
           else None),
        laterality_at := (\<lambda>p. if p = 4000 then Some 0 else if p = 4100 then Some 82 else None),
        contour_header_at := (\<lambda>p. if p = 5000 \<or> p = 5100 \<or> p = 5200
                                    then Some \<lparr>co_id = 0, co_width = 1\<rparr>
                                    else if p = 5300
                                    then Some \<lparr>co_id = 1, co_width = 1\<rparr>
                                    else None),
        contour_words_at := (\<lambda>p w. if p = 5000 then Some (take w [11])
                                     else if p = 5100 then Some (take w [12])
                                     else if p = 5200 then Some (take w [13])
                                     else if p = 5300 then Some (take w [14])
                                     else None),
        image_header_at := (\<lambda>p.
           if p = 2000 \<or> p = 3200 then Some \<lparr>im_width = 1, im_height = 1\<rparr>
           else if p = 3000 \<or> p = 3100 then Some \<lparr>im_width = 0, im_height = 0\<rparr>
           else None),
        u16_at := (\<lambda>p. if p = 2000 then [7] else []),
        u8_at := (\<lambda>p. if p = 3200 then [5] else [])\<rparr>"

text \<open>The state of the chunk loop at its start, for an object fresh from \<open>__init__\<close>.\<close>

definition start_state :: "(string \<times> rat) list \<Rightarrow> oct_state" where
  "start_state volume_dict = init_oct_state init_self volume_dict"

section \<open>The 16-bit float\<close>

lemma zfill_snoc: "zfill (Suc w) (s @ [c]) = zfill w s @ [c]"
  by (simp add: zfill_def)

lemma zfill_bin_digits:
  "n < 2 ^ w \<Longrightarrow> 0 < w \<Longrightarrow>
   zfill w (bin_digits n) = map (\<lambda>i. bit_char (byte_bit n i)) (rev [0..<w])"
proof (induction w arbitrary: n)
  case 0
  then show ?case by simp
next
  case (Suc w)
  show ?case
  proof (cases "n < 2")
    case True
    have z: "byte_bit n (Suc i) = False" for i
    proof -
      have "(2::nat) \<le> 2 * 2 ^ i" by simp
      then have "n < 2 * 2 ^ i" using True by linarith
      then show ?thesis by (simp add: byte_bit_def)
    qed
    have "zfill (Suc w) (bin_digits n) = replicate w (CHR ''0'') @ [bit_char (n = 1)]"
      using True by (simp add: bin_digits.simps [of n] zfill_def)
    moreover have "map (\<lambda>i. bit_char (byte_bit n i)) (rev [0..<Suc w])
        = map (\<lambda>i. bit_char (byte_bit n (Suc i))) (rev [0..<w]) @ [bit_char (byte_bit n 0)]"
      by (simp add: upt_conv_Cons map_Suc_upt [symmetric] rev_map del: upt_Suc)
    moreover have "map (\<lambda>i. bit_char (byte_bit n (Suc i))) (rev [0..<w]) = replicate w (CHR ''0'')"
      by (simp add: z bit_char_def map_replicate_const)
    moreover have "byte_bit n 0 = (n = 1)"
    proof -
      have "n = 0 \<or> n = 1" using True by arith
      then show ?thesis by (auto simp: byte_bit_def)
    qed
    ultimately show ?thesis by simp
  next
    case False
    then have w: "0 < w" using Suc.prems by (cases w) auto
    have d: "n div 2 < 2 ^ w" using Suc.prems by auto
    have s: "byte_bit n (Suc i) = byte_bit (n div 2) i" for i
      by (simp add: byte_bit_def div_mult2_eq)
    have "zfill (Suc w) (bin_digits n) = zfill w (bin_digits (n div 2)) @ [bit_char (odd n)]"
      using False by (simp add: bin_digits.simps [of n] zfill_snoc)
    moreover have "map (\<lambda>i. bit_char (byte_bit n i)) (rev [0..<Suc w])
        = map (\<lambda>i. bit_char (byte_bit n (Suc i))) (rev [0..<w]) @ [bit_char (byte_bit n 0)]"
      by (simp add: upt_conv_Cons map_Suc_upt [symmetric] rev_map del: upt_Suc)
    moreover have "byte_bit n 0 = odd n" by (simp add: byte_bit_def)
    ultimately show ?thesis using Suc.IH [OF d w] by (simp add: s)
  qed
qed

lemma int_base2_bits:
  "bs \<noteq> [] \<Longrightarrow> int_base2 (map bit_char bs) = Some (bits_value bs)"
proof -
  have f: "foldl (\<lambda>acc c. 2 * acc + (if c = CHR ''1'' then 1 else 0)) a (map bit_char bs)
         = foldl (\<lambda>acc b. 2 * acc + (if b then 1 else 0)) a bs" for a :: nat
    by (induction bs arbitrary: a) (simp_all add: bit_char_def)
  have l: "list_all (\<lambda>c. c = CHR ''0'' \<or> c = CHR ''1'') (map bit_char bs)"
    by (induction bs) (simp_all add: bit_char_def)
  assume "bs \<noteq> []"
  then show ?thesis by (simp add: int_base2_def l f bits_value_def)
qed

lemma rev_format_016b:
  assumes "u < 65536"
  shows "rev (format_016b u) = map (\<lambda>i. bit_char (byte_bit u i)) [0..<16]"
proof -
  have "u < 2 ^ 16" using assms by simp
  then have "format_016b u = map (\<lambda>i. bit_char (byte_bit u i)) (rev [0..<16])"
    unfolding format_016b_def by (rule zfill_bin_digits) simp
  then show ?thesis by (simp only: rev_map rev_rev_ident)
qed

lemma rev_zfill8:
  assumes "b < 256"
  shows "rev (zfill 8 (bin_digits b)) = map (\<lambda>i. bit_char (byte_bit b i)) [0..<8]"
proof -
  have "b < 2 ^ 8" using assms by simp
  then have "zfill 8 (bin_digits b) = map (\<lambda>i. bit_char (byte_bit b i)) (rev [0..<8])"
    by (rule zfill_bin_digits) simp
  then show ?thesis by (simp only: rev_map rev_rev_ident)
qed

lemma byte_bit_low: "i < 8 \<Longrightarrow> byte_bit (u mod 256) i = byte_bit u i"
proof -
  assume i: "i < 8"
  have "byte_bit (u mod 256) i = bit (take_bit 8 u) i"
    by (simp add: byte_bit_def bit_iff_odd take_bit_eq_mod)
  also have "\<dots> = bit u i" using i by (simp add: bit_take_bit_iff)
  also have "\<dots> = byte_bit u i" by (simp add: byte_bit_def bit_iff_odd)
  finally show ?thesis .
qed

lemma byte_bit_high: "byte_bit (u div 256) i = byte_bit u (8 + i)"
proof -
  have "u div 256 div 2 ^ i = u div (2 ^ 8 * 2 ^ i)"
    by (simp add: div_mult2_eq)
  then show ?thesis by (simp add: byte_bit_def power_add)
qed

lemma stream_bits:
  "map (byte_bit (u mod 256)) [0..<8] @ map (byte_bit (u div 256)) [0..<8] = map (byte_bit u) [0..<16]"
proof -
  have a: "map (byte_bit (u mod 256)) [0..<8] = map (byte_bit u) [0..<8]"
    by (rule map_cong) (simp_all add: byte_bit_low)
  have "[8..<16] = map (\<lambda>i. 8 + i) [0..<8::nat]"
    by code_simp
  then have b: "map (byte_bit (u div 256)) [0..<8] = map (byte_bit u) [8..<16]"
    by (simp add: byte_bit_high comp_def)
  have "[0..<16] = [0..<8] @ [8..<16::nat]"
    by code_simp
  then show ?thesis using a b by simp
qed

text \<open>
  Claim C1.  For every 16-bit unsigned integer \<open>u\<close>, \<open>uint16_to_ufloat16(u)\<close> returns,
  without raising, the value of the reference decode of the specification: the bits of
  the two bytes of the little-endian value, each byte reversed, the first 10 of them as
  the mantissa \<open>M\<close>, the remaining 6 reversed as the exponent \<open>E\<close>, and
  \<open>(1 + M / 2^10) * 2^(E - 63)\<close> as the result.
\<close>

theorem uint16_to_ufloat16_reference:
  assumes "u < 65536"
  shows "uint16_to_ufloat16 u = Inr (ufloat16_reference u)"
proof -
  let ?bs = "map (byte_bit u) [0..<16]"
  have r: "rev (format_016b u) = map bit_char ?bs"
    using rev_format_016b [OF assms] by (simp add: comp_def)
  have m: "int_base2 (take 10 (map bit_char ?bs)) = Some (bits_value (take 10 ?bs))"
    unfolding take_map by (rule int_base2_bits) simp
  have e: "int_base2 (rev (drop 10 (map bit_char ?bs))) = Some (bits_value (rev (drop 10 ?bs)))"
    unfolding drop_map rev_map by (rule int_base2_bits) simp
  have p: "pow2 k = 2 powi k" for k
    by (simp add: pow2_def power_int_def field_simps)
  show ?thesis
    by (simp only: uint16_to_ufloat16_def ufloat16_reference_def Let_def r m e option.case
        stream_bits p self_power_def of_nat_power of_nat_numeral)
qed

theorem uint16_to_ufloat16_reference_witness:
  "(1025::nat) < 65536 \<and> uint16_to_ufloat16 1025 = Inr (ufloat16_reference 1025)"
  using uint16_to_ufloat16_reference [of 1025] by simp

text \<open>
  Claim C9.  For every pair of bytes \<open>b0\<close>, \<open>b1\<close>, \<open>read_custom_float([b0, b1])\<close> returns
  the same value as \<open>uint16_to_ufloat16(b0 + 256 * b1)\<close>: the decoder that reverses each
  byte's digits and the decoder that reverses the 16 digits of the whole number are the
  same function.
\<close>

theorem read_custom_float_eq_uint16_to_ufloat16:
  assumes "b0 < 256" and "b1 < 256"
  shows "read_custom_float [b0, b1] = uint16_to_ufloat16 (b0 + 256 * b1)"
proof -
  let ?u = "b0 + 256 * b1"
  have u: "?u < 65536" using assms by simp
  have m: "?u mod 256 = b0" and d: "?u div 256 = b1" using assms by simp_all
  have "rev (zfill 8 (bin_digits b0)) @ rev (zfill 8 (bin_digits b1))
      = map bit_char (map (byte_bit (?u mod 256)) [0..<8] @ map (byte_bit (?u div 256)) [0..<8])"
    by (simp only: m d rev_zfill8 [OF assms(1)] rev_zfill8 [OF assms(2)] map_append map_map comp_def)
  also have "\<dots> = rev (format_016b ?u)"
    by (simp only: stream_bits rev_format_016b [OF u] map_map comp_def)
  finally show ?thesis
    by (simp add: read_custom_float_def uint16_to_ufloat16_def Let_def)
qed

theorem read_custom_float_eq_uint16_to_ufloat16_witness:
  "(129::nat) < 256 \<and> (7::nat) < 256 \<and>
   read_custom_float [129, 7] = uint16_to_ufloat16 (129 + 256 * 7)"
  using read_custom_float_eq_uint16_to_ufloat16 [of 129 7] by simp

section \<open>Dicts, indices and truncation\<close>

lemma map_of_dict_set: "map_of (dict_set d k v) = (map_of d)(k \<mapsto> v)"
  by (induction d) (auto simp: fun_eq_iff)

lemma keys_dict_set: "fst ` set (dict_set d k v) = insert k (fst ` set d)"
proof (induction d)
  case Nil
  then show ?case by simp
next
  case (Cons a d)
  obtain k' v' where a: "a = (k', v')" by (cases a)
  show ?case
  proof (cases "k' = k")
    case True
    then show ?thesis using a by simp
  next
    case False
    then show ?thesis using a Cons.IH by (simp add: insert_commute)
  qed
qed

lemma Max_insert_max:
  "finite S \<Longrightarrow> Max (insert (max m h) S) = Max (insert (m::rat) (insert h S))"
  by (cases "S = {}") (simp_all add: max.assoc)

lemma distinct_dict_set: "distinct (map fst d) \<Longrightarrow> distinct (map fst (dict_set d k v))"
proof (induction d)
  case Nil
  then show ?case by simp
next
  case (Cons a d)
  obtain k' v' where a: "a = (k', v')" by (cases a)
  show ?case
  proof (cases "k' = k")
    case True
    with Cons.prems a show ?thesis by simp
  next
    case False
    have "k' \<notin> fst ` set (dict_set d k v)"
      using Cons.prems a False by (simp add: keys_dict_set)
    with Cons a False show ?thesis by simp
  qed
qed

lemma py_int_of_int: "py_int (of_int n) = n"
  by (simp add: py_int_def)

lemma py_int_zero: "py_int 0 = 0"
  by (simp add: py_int_def)

lemma py_int_half:
  "py_int (of_int n / 2) = (if 0 \<le> n then n div 2 else - ((- n) div 2))"
proof (cases "0 \<le> n")
  case True
  then have "(0::rat) \<le> of_int n / 2" by simp
  moreover have "\<lfloor>(of_int n :: rat) / 2\<rfloor> = n div 2"
    using floor_divide_of_int_eq [of n 2, where ?'a = rat] by simp
  ultimately show ?thesis using True by (simp add: py_int_def)
next
  case False
  then have neg: "\<not> (0::rat) \<le> of_int n / 2" by simp
  have "\<lceil>(of_int n :: rat) / 2\<rceil> = - \<lfloor>(of_int (- n) :: rat) / 2\<rfloor>"
    by (simp add: ceiling_def)
  also have "\<lfloor>(of_int (- n) :: rat) / 2\<rfloor> = (- n) div 2"
    using floor_divide_of_int_eq [of "- n" 2, where ?'a = rat] by simp
  finally show ?thesis using False neg by (simp add: py_int_def)
qed

lemma py_int_add_one: "0 \<le> x \<Longrightarrow> py_int (x + 1) = py_int x + 1"
  by (simp add: py_int_def)

lemma map_of_update_volume_dict:
  "map_of (update_volume_dict vd c) k =
     (if sd_volume_string c = k
      then Some (case map_of vd k of None \<Rightarrow> sd_half c | Some m \<Rightarrow> max m (sd_half c))
      else map_of vd k)"
  by (auto simp: update_volume_dict_def map_of_dict_set max_def split: option.splits)

lemma distinct_update_volume_dict:
  "distinct (map fst vd) \<Longrightarrow> distinct (map fst (update_volume_dict vd c))"
  by (simp add: update_volume_dict_def distinct_dict_set split: option.splits)

lemma distinct_foldl_update_volume_dict:
  "distinct (map fst vd) \<Longrightarrow> distinct (map fst (foldl update_volume_dict vd es))"
  by (induction es arbitrary: vd) (simp_all add: distinct_update_volume_dict)

lemma map_of_foldl_update_volume_dict:
  "map_of (foldl update_volume_dict vd es) k =
     (let hs = map sd_half (filter (\<lambda>c. sd_volume_string c = k) es)
      in case map_of vd k of
           None \<Rightarrow> if hs = [] then None else Some (Max (set hs))
         | Some m \<Rightarrow> Some (Max (set (m # hs))))"
proof (induction es arbitrary: vd)
  case Nil
  then show ?case by (simp split: option.splits)
next
  case (Cons c es)
  let ?hs = "map sd_half (filter (\<lambda>c. sd_volume_string c = k) es)"
  show ?case
  proof (cases "sd_volume_string c = k")
    case False
    then show ?thesis
      using Cons.IH [of "update_volume_dict vd c"]
      by (simp add: map_of_update_volume_dict Let_def)
  next
    case True
    show ?thesis
    proof (cases "map_of vd k")
      case None
      then show ?thesis
        using Cons.IH [of "update_volume_dict vd c"] True
        by (simp add: map_of_update_volume_dict Let_def)
    next
      case (Some m)
      have "Max (insert (max m (sd_half c)) (set ?hs)) = Max (insert m (insert (sd_half c) (set ?hs)))"
        by (rule Max_insert_max) simp
      then have "Max (set (max m (sd_half c) # ?hs)) = Max (set (m # sd_half c # ?hs))"
        by (simp only: list.set)
      then show ?thesis
        using Cons.IH [of "update_volume_dict vd c"] True Some
        by (simp add: map_of_update_volume_dict Let_def)
    qed
  qed
qed

lemma fst_foldl_sub_directory_entry:
  "fst (foldl sub_directory_entry acc es) = foldl update_volume_dict (fst acc) es"
  by (induction es arbitrary: acc) (simp_all add: sub_directory_entry_def)

lemma second_pass_volume_dict:
  "second_pass f directory_stack acc = Inr (volume_dict, chunk_stack) \<Longrightarrow>
   volume_dict = foldl update_volume_dict (fst acc) (scanned_entries f directory_stack)"
proof (induction directory_stack arbitrary: acc)
  case Nil
  then show ?case by (simp add: scanned_entries_def)
next
  case (Cons position rest)
  from Cons.prems obtain d where d: "directory_at f position = Some d"
    by (cases "directory_at f position") auto
  let ?es = "take (md_num_entries d) (entries_at f position)"
  from Cons.prems d have "second_pass f rest (foldl sub_directory_entry acc ?es) = Inr (volume_dict, chunk_stack)"
    by (simp split: if_splits)
  from Cons.IH [OF this] have "volume_dict = foldl update_volume_dict (foldl update_volume_dict (fst acc) ?es) (scanned_entries f rest)"
    by (simp add: fst_foldl_sub_directory_entry)
  then show ?case using d by (simp add: scanned_entries_def)
qed

lemma map_of_init_volume_array_dict:
  "distinct (map fst vd) \<Longrightarrow>
   map_of (init_volume_array_dict vad vd) k =
     (case map_of vd k of
        None \<Rightarrow> map_of vad k
      | Some m \<Rightarrow> if m > 0 then Some (replicate (nat (py_int (m + 1))) (PyInt 0)) else map_of vad k)"
proof (induction vd arbitrary: vad)
  case Nil
  then show ?case by simp
next
  case (Cons a vd)
  obtain v n where a: "a = (v, n)" by (cases a)
  have d: "distinct (map fst vd)" and nin: "v \<notin> fst ` set vd"
    using Cons.prems a by auto
  show ?case
  proof (cases "v = k")
    case True
    then have "map_of vd k = None" using nin by (simp add: map_of_eq_None_iff)
    then show ?thesis using Cons.IH [OF d] a True
      by (simp add: map_of_dict_set)
  next
    case False
    then show ?thesis using Cons.IH [OF d] a
      by (simp add: map_of_dict_set split: option.splits)
  qed
qed

lemma str_nat_digit: "n < 10 \<Longrightarrow> str_nat n = [''0123456789'' ! n]"
  by (simp add: str_nat.simps)

lemmas volume_string_eval = volume_string_def sd_volume_string_def ch_volume_string_def str_nat_digit

section \<open>The sub-directory scan\<close>

lemma second_pass_one_volume:
  "second_pass one_volume_file [100] ([], []) =
     Inr ([(''1_0_0'', - 1 / 2), (''1_2_3'', 2)], [(1000, 127), (2000, 24)])"
  by (simp add: one_volume_file_def blank_file_def one_volume_entries_def sub_directory_entry_def
      update_volume_dict_def push_chunk_def sd_half_def volume_string_eval)

lemma scanned_entries_one_volume:
  "scanned_entries one_volume_file [100] = one_volume_entries"
  by (simp add: scanned_entries_def one_volume_file_def blank_file_def one_volume_entries_def)

text \<open>
  Claim C4.  For every volume string of an entry read by the sub-directory scan, if the
  largest \<open>slice_id / 2\<close> of its entries is positive, the slice sequence initialised for it
  consists of \<open>int(that maximum) + 1\<close> placeholders; if it is not positive, no sequence is
  initialised for it.
\<close>

theorem volume_array_dict_length:
  assumes "second_pass f directory_stack ([], []) = Inr (volume_dict, chunk_stack)"
    and "chunk \<in> set (scanned_entries f directory_stack)"
  shows "map_of (init_volume_array_dict [] volume_dict) (sd_volume_string chunk) =
           (if max_half (scanned_entries f directory_stack) (sd_volume_string chunk) > 0
            then Some (replicate
                   (nat (py_int (max_half (scanned_entries f directory_stack) (sd_volume_string chunk)) + 1))
                   (PyInt 0))
            else None)"
proof -
  let ?es = "scanned_entries f directory_stack"
  let ?k = "sd_volume_string chunk"
  let ?hs = "map sd_half (filter (\<lambda>c. sd_volume_string c = ?k) ?es)"
  have vd: "volume_dict = foldl update_volume_dict [] ?es"
    using second_pass_volume_dict [OF assms(1)] by simp
  have dist: "distinct (map fst volume_dict)"
    unfolding vd by (rule distinct_foldl_update_volume_dict) simp
  have ne: "?hs \<noteq> []"
    using assms(2) by (auto simp: filter_empty_conv)
  have m: "map_of volume_dict ?k = Some (max_half ?es ?k)"
    unfolding vd using ne by (simp add: map_of_foldl_update_volume_dict max_half_def Let_def)
  show ?thesis
    using map_of_init_volume_array_dict [OF dist, of "[]" ?k] m
    by (simp add: py_int_add_one)
qed

theorem volume_array_dict_length_witness:
  "second_pass one_volume_file [100] ([], []) =
     Inr ([(''1_0_0'', - 1 / 2), (''1_2_3'', 2)], [(1000, 127), (2000, 24)]) \<and>
   one_volume_entries ! 1 \<in> set (scanned_entries one_volume_file [100]) \<and>
   map_of (init_volume_array_dict [] [(''1_0_0'', - 1 / 2), (''1_2_3'', 2)]) ''1_2_3'' =
     Some [PyInt 0, PyInt 0, PyInt 0] \<and>
   one_volume_entries ! 0 \<in> set (scanned_entries one_volume_file [100]) \<and>
   map_of (init_volume_array_dict [] [(''1_0_0'', - 1 / 2), (''1_2_3'', 2)]) ''1_0_0'' = None"
proof -
  let ?vd = "[(''1_0_0'', - 1 / 2), (''1_2_3'', 2 :: rat)]"
  have m1: "max_half one_volume_entries ''1_2_3'' = 2"
    by (simp add: max_half_def one_volume_entries_def sd_half_def volume_string_eval)
  have m0: "max_half one_volume_entries ''1_0_0'' = - 1 / 2"
    by (simp add: max_half_def one_volume_entries_def sd_half_def volume_string_eval)
  have k1: "sd_volume_string (one_volume_entries ! 1) = ''1_2_3''"
    and k0: "sd_volume_string (one_volume_entries ! 0) = ''1_0_0''"
    by (simp_all add: one_volume_entries_def volume_string_eval)
  have in1: "one_volume_entries ! 1 \<in> set (scanned_entries one_volume_file [100])"
    and in0: "one_volume_entries ! 0 \<in> set (scanned_entries one_volume_file [100])"
    by (simp_all add: scanned_entries_one_volume one_volume_entries_def)
  have p: "replicate (nat (py_int 2 + 1)) (PyInt 0) = [PyInt 0, PyInt 0, PyInt 0]"
    by (simp add: py_int_def numeral_3_eq_3)
  have t1: "map_of (init_volume_array_dict [] ?vd) ''1_2_3'' = Some [PyInt 0, PyInt 0, PyInt 0]"
    using volume_array_dict_length [OF second_pass_one_volume in1]
    unfolding k1 scanned_entries_one_volume m1 p by simp
  have t0: "map_of (init_volume_array_dict [] ?vd) ''1_0_0'' = None"
    using volume_array_dict_length [OF second_pass_one_volume in0]
    unfolding k0 scanned_entries_one_volume m0 by simp
  from second_pass_one_volume in1 t1 in0 t0 show ?thesis
    by (intro conjI)
qed

section \<open>The shape of \<open>volume_array_dict\<close>\<close>

lemma map_of_shape: "map_of (shape d) k = map_option length (map_of d k)"
  by (induction d) (auto simp: shape_def)

lemma shape_dict_set_same:
  "map_of d k = Some xs \<Longrightarrow> length ys = length xs \<Longrightarrow> shape (dict_set d k ys) = shape d"
  by (induction d) (auto simp: shape_def split: if_splits)

lemma list_setitem_length: "list_setitem xs i v = Inr ys \<Longrightarrow> length ys = length xs"
  by (auto simp: list_setitem_def split: option.splits)

lemma store_image_shape:
  "store_image s chunk img = Inr s' \<Longrightarrow> shape (volume_array_dict s') = shape (volume_array_dict s)"
  by (auto simp: store_image_def shape_dict_set_same list_setitem_length
      split: option.splits sum.splits)

lemma bind_laterality_volume_array_dict [simp]:
  "volume_array_dict (bind_laterality s chunk) = volume_array_dict s"
  by (simp add: bind_laterality_def split: option.splits)

lemma image_chunk_shape:
  "image_chunk f start chunk s = Inr (fl, s') \<Longrightarrow>
   shape (volume_array_dict s') = shape (volume_array_dict s)"
  by (auto simp: image_chunk_def Let_def store_image_shape split: option.splits if_splits sum.splits)

lemma contour_chunk_volume_array_dict:
  "contour_chunk f start chunk s = Inr s' \<Longrightarrow> volume_array_dict s' = volume_array_dict s"
  by (auto simp: contour_chunk_def split: option.splits if_splits)

lemma oct_chunk_shape:
  "oct_chunk f start s = Inr (fl, s') \<Longrightarrow>
   shape (volume_array_dict s') = shape (volume_array_dict s)"
  by (auto simp: oct_chunk_def image_chunk_shape contour_chunk_volume_array_dict
      split: option.splits if_splits sum.splits)

lemma oct_chunks_shape:
  "oct_chunks f chunk_stack s = Inr s' \<Longrightarrow>
   shape (volume_array_dict s') = shape (volume_array_dict s)"
proof (induction chunk_stack arbitrary: s)
  case Nil
  then show ?case by simp
next
  case (Cons a chunk_stack)
  obtain start pos where a: "a = (start, pos)" by (cases a)
  from Cons.prems a obtain fl s1 where step: "oct_chunk f start s = Inr (fl, s1)"
    by (cases "oct_chunk f start s") auto
  show ?case
  proof (cases fl)
    case Continue
    with Cons.prems a step have "oct_chunks f chunk_stack s1 = Inr s'" by simp
    from Cons.IH [OF this] oct_chunk_shape [OF step] show ?thesis by simp
  next
    case Break
    with Cons.prems a step have "s' = s1" by simp
    with oct_chunk_shape [OF step] show ?thesis by simp
  qed
qed

lemma second_pass_distinct:
  assumes "second_pass f directory_stack ([], []) = Inr (volume_dict, chunk_stack)"
  shows "distinct (map fst volume_dict)"
proof -
  have "volume_dict = foldl update_volume_dict [] (scanned_entries f directory_stack)"
    using second_pass_volume_dict [OF assms] by simp
  then show ?thesis by (simp add: distinct_foldl_update_volume_dict)
qed

text \<open>Which keys have a sequence, and of which length, in a state of the given shape.\<close>

lemma initialised_length:
  assumes "distinct (map fst volume_dict)"
    and "shape vad = shape (init_volume_array_dict [] volume_dict)"
  shows "map_option length (map_of vad k) =
           (case map_of volume_dict k of
              None \<Rightarrow> None
            | Some m \<Rightarrow> if m > 0 then Some (nat (py_int m + 1)) else None)"
proof -
  have "map_option length (map_of vad k) = map_of (shape (init_volume_array_dict [] volume_dict)) k"
    using assms(2) by (simp add: map_of_shape [symmetric])
  also have "\<dots> = map_option length (map_of (init_volume_array_dict [] volume_dict) k)"
    by (simp add: map_of_shape)
  finally show ?thesis
    by (simp add: map_of_init_volume_array_dict [OF assms(1)] py_int_add_one split: option.splits)
qed

lemma py_int_nonneg: "0 \<le> x \<Longrightarrow> 0 \<le> py_int x"
  by (simp add: py_int_def)

lemma initialised_nonempty:
  assumes "distinct (map fst volume_dict)"
    and "shape vad = shape (init_volume_array_dict [] volume_dict)"
    and "map_of vad k = Some volume"
  shows "volume \<noteq> []"
proof -
  from initialised_length [OF assms(1,2), of k] assms(3)
  obtain m where m: "map_of volume_dict k = Some m" "m > 0" "length volume = nat (py_int m + 1)"
    by (auto split: option.splits if_splits)
  have "0 \<le> py_int m" using m(2) by (simp add: py_int_nonneg)
  then have "0 < nat (py_int m + 1)" by simp
  with m(3) show ?thesis by auto
qed

section \<open>Images\<close>

lemma slice_index_0_1:
  "ch_slice_id chunk = 0 \<or> ch_slice_id chunk = 1 \<Longrightarrow> slice_index chunk = - 1"
  by (auto simp: slice_index_def py_int_half)

lemma py_index_minus_one: "0 < n \<Longrightarrow> py_index n (- 1) = Some (n - 1)"
  by (auto simp: py_index_def Let_def)

text \<open>
  Claim C10.  When a B-scan chunk with \<open>slice_id\<close> 0 or 1 decodes and its volume string
  has an initialised slice sequence, the index \<open>int(slice_id / 2) - 1\<close> is \<open>-1\<close>, the
  sequence is not empty, and the image is stored in its last slot; the chunk is not
  rejected.  The state is any state with the keys and lengths that the initialisation
  gives, which every state of the chunk loop has (\<open>oct_chunks_shape\<close>).
\<close>

theorem slice_id_0_or_1_last_slot:
  assumes "second_pass f directory_stack ([], []) = Inr (volume_dict, chunk_stack)"
    and "shape (volume_array_dict s) = shape (init_volume_array_dict [] volume_dict)"
    and "chunk_at f start = Some chunk"
    and "ch_type chunk = 1073741824" and "ch_ind chunk = 1"
    and "image_header_at f start = Some image_data"
    and "im_height image_data * im_width image_data \<noteq> 0"
    and "length (u16_at f start) \<ge> im_height image_data * im_width image_data"
    and "ch_slice_id chunk = 0 \<or> ch_slice_id chunk = 1"
    and "map_of (volume_array_dict s) (ch_volume_string chunk) = Some volume"
  shows "slice_index chunk = - 1 \<and> volume \<noteq> [] \<and>
         oct_chunk f start s =
           Inr (Continue,
                bind_laterality
                  (s\<lparr>volume_array_dict :=
                       dict_set (volume_array_dict s) (ch_volume_string chunk)
                         (volume[length volume - 1 :=
                            Image (OctImage
                                     (take (im_height image_data * im_width image_data) (u16_at f start))
                                     (im_width image_data) (im_height image_data))])\<rparr>)
                  chunk)"
proof -
  have idx: "slice_index chunk = - 1"
    using assms(9) by (rule slice_index_0_1)
  have ne: "volume \<noteq> []"
    using initialised_nonempty [OF second_pass_distinct [OF assms(1)] assms(2) assms(10)] .
  then have pi: "py_index (length volume) (- 1) = Some (length volume - 1)"
    by (simp add: py_index_minus_one)
  have len: "length (take (im_height image_data * im_width image_data) (u16_at f start))
               = im_width image_data * im_height image_data"
    using assms(8) by (simp add: mult.commute)
  have "oct_chunk f start s = image_chunk f start chunk s"
    using assms(3,4) by (simp add: oct_chunk_def)
  also have "\<dots> = Inr (Continue,
                bind_laterality
                  (s\<lparr>volume_array_dict :=
                       dict_set (volume_array_dict s) (ch_volume_string chunk)
                         (volume[length volume - 1 :=
                            Image (OctImage
                                     (take (im_height image_data * im_width image_data) (u16_at f start))
                                     (im_width image_data) (im_height image_data))])\<rparr>)
                  chunk)"
    using assms(5,6,7,10) len
    by (simp add: image_chunk_def Let_def store_image_def list_setitem_def idx pi)
  finally show ?thesis using idx ne by simp
qed

lemma second_pass_chunks_file:
  "second_pass chunks_file [200, 100] ([], []) =
     Inr ([(''1_2_3'', 2)], [(5000, 20), (5100, 20), (5200, 20), (5300, 20), (2000, 22)])"
  by (simp add: chunks_file_def blank_file_def sub_directory_entry_def
      update_volume_dict_def push_chunk_def sd_half_def volume_string_eval)

lemma chunk_at_2000:
  "chunk_at chunks_file 2000 =
     Some \<lparr>ch_patient_id = 1, ch_study_id = 2, ch_series_id = 3, ch_slice_id = 0, ch_ind = 1,
           ch_type = image_type\<rparr>"
  by (simp add: chunks_file_def blank_file_def)

lemma image_header_at_2000:
  "image_header_at chunks_file 2000 = Some \<lparr>im_width = 1, im_height = 1\<rparr>"
  by (simp add: chunks_file_def blank_file_def)

lemma u16_at_2000: "u16_at chunks_file 2000 = [7]"
  by (simp add: chunks_file_def blank_file_def)

lemma start_state_simps:
  "self (start_state vd) = init_self"
  "volume_array_dict (start_state vd) = init_volume_array_dict [] vd"
  "volume_array_dict_additional (start_state vd) = []"
  "laterality_dict (start_state vd) = []"
  "laterality (start_state vd) = None"
  "contour_dict (start_state vd) = []"
  by (simp_all add: start_state_def init_oct_state_def)

lemma init_volume_array_dict_2:
  "init_volume_array_dict [] [(''1_2_3'', 2)] = [(''1_2_3'', [PyInt 0, PyInt 0, PyInt 0])]"
  by (simp add: py_int_def numeral_3_eq_3)

theorem slice_id_0_or_1_last_slot_witness:
  "second_pass chunks_file [200, 100] ([], []) =
     Inr ([(''1_2_3'', 2)], [(5000, 20), (5100, 20), (5200, 20), (5300, 20), (2000, 22)]) \<and>
   map_of (volume_array_dict (start_state [(''1_2_3'', 2)])) ''1_2_3'' =
     Some [PyInt 0, PyInt 0, PyInt 0] \<and>
   oct_chunk chunks_file 2000 (start_state [(''1_2_3'', 2)]) =
     Inr (Continue,
          (start_state [(''1_2_3'', 2)])
            \<lparr>volume_array_dict := [(''1_2_3'', [PyInt 0, PyInt 0, Image (OctImage [7] 1 1)])]\<rparr>)"
proof -
  let ?s = "start_state [(''1_2_3'', 2)]"
  let ?chunk = "\<lparr>ch_patient_id = 1, ch_study_id = 2, ch_series_id = 3, ch_slice_id = 0,
                 ch_ind = 1, ch_type = image_type\<rparr>"
  let ?image_data = "\<lparr>im_width = 1, im_height = 1\<rparr>"
  have key: "ch_volume_string ?chunk = ''1_2_3''"
    by (simp add: volume_string_eval)
  have vol: "map_of (volume_array_dict ?s) (ch_volume_string ?chunk) = Some [PyInt 0, PyInt 0, PyInt 0]"
    unfolding key start_state_simps init_volume_array_dict_2 by simp
  have step: "oct_chunk chunks_file 2000 ?s =
      Inr (Continue,
           bind_laterality
             (?s\<lparr>volume_array_dict :=
                   dict_set (volume_array_dict ?s) (ch_volume_string ?chunk)
                     ([PyInt 0, PyInt 0, PyInt 0]
                        [length [PyInt 0, PyInt (0::int), PyInt 0] - 1 :=
                           Image (OctImage
                              (take (im_height ?image_data * im_width ?image_data)
                                 (u16_at chunks_file 2000))
                              (im_width ?image_data) (im_height ?image_data))])\<rparr>)
             ?chunk)"
    using slice_id_0_or_1_last_slot [OF second_pass_chunks_file _ chunk_at_2000 _ _
        image_header_at_2000 _ _ _ vol]
    by (simp add: start_state_simps image_type_def u16_at_2000)
  have "oct_chunk chunks_file 2000 ?s =
     Inr (Continue, ?s\<lparr>volume_array_dict := [(''1_2_3'', [PyInt 0, PyInt 0, Image (OctImage [7] 1 1)])]\<rparr>)"
    unfolding step key start_state_simps init_volume_array_dict_2 u16_at_2000
    by (simp add: bind_laterality_def start_state_simps)
  with second_pass_chunks_file vol [unfolded key] show ?thesis
    by (intro conjI)
qed

section \<open>The routing of B-scan images\<close>

lemma py_index_bounds: "py_index n i = Some j \<Longrightarrow> j < n"
  by (auto simp: py_index_def Let_def split: if_splits)

lemmas chunks_file_eval = chunks_file_def blank_file_def image_type_def

lemmas state_eval = start_state_def init_oct_state_def init_fundus_state_def init_self_def

lemmas step_eval = oct_chunk_def image_chunk_def store_image_def bind_laterality_def
  list_setitem_def py_index_def slice_index_def py_int_half py_int_zero laterality_chunk_def
  fundus_chunk_def fundus_image_chunk_def Let_def

lemma second_pass_chunks_file_100:
  "second_pass chunks_file [100] ([], []) = Inr ([(''1_2_3'', 0)], [(2000, 22)])"
  by (simp add: chunks_file_def blank_file_def sub_directory_entry_def
      update_volume_dict_def push_chunk_def sd_half_def volume_string_eval)

lemma orphan_step:
  "oct_chunk chunks_file 2000 (start_state [(''1_2_3'', 0)]) =
     Inr (Continue,
          (start_state [(''1_2_3'', 0)])
            \<lparr>volume_array_dict_additional := [(''1_2_3'', [Image (OctImage [7] 1 1)])]\<rparr>)"
  by (simp add: step_eval chunks_file_eval state_eval volume_string_eval)

text \<open>
  Claim C6, as the specification states it, fails: the volume \<open>1_2_3\<close> of \<open>chunks_file\<close>
  has a sub-directory record in directory 100, with \<open>slice_id = 0\<close>, so no sequence is
  initialised for it, and its decoded B-scan goes to the additional bucket.
\<close>

theorem image_routing_counterexample:
  "second_pass chunks_file [100] ([], []) = Inr ([(''1_2_3'', 0)], [(2000, 22)]) \<and>
   map_of [(''1_2_3'', 0 :: rat)] ''1_2_3'' = Some 0 \<and>
   volume_array_dict (start_state [(''1_2_3'', 0)]) = [] \<and>
   oct_chunks chunks_file [(2000, 22)] (start_state [(''1_2_3'', 0)]) =
     Inr ((start_state [(''1_2_3'', 0)])
            \<lparr>volume_array_dict_additional := [(''1_2_3'', [Image (OctImage [7] 1 1)])]\<rparr>)"
proof -
  have "volume_array_dict (start_state [(''1_2_3'', 0)]) = []"
    by (simp add: state_eval)
  moreover have "oct_chunks chunks_file [(2000, 22)] (start_state [(''1_2_3'', 0)]) =
     Inr ((start_state [(''1_2_3'', 0)])
            \<lparr>volume_array_dict_additional := [(''1_2_3'', [Image (OctImage [7] 1 1)])]\<rparr>)"
    by (simp add: orphan_step)
  moreover have "map_of [(''1_2_3'', 0 :: rat)] ''1_2_3'' = Some 0"
    by simp
  ultimately show ?thesis
    using second_pass_chunks_file_100 by (intro conjI)
qed

text \<open>
  Claim C6, amended.  A decoded B-scan image is routed to the additional bucket exactly
  when its volume string has no initialised slice sequence, that is, when it has no
  sub-directory record or the largest \<open>slice_id / 2\<close> of its records is not positive; it is
  then appended to the bucket of its volume string.  An image whose volume string has an
  initialised sequence is stored in it at the index \<open>int(slice_id / 2) - 1\<close>, counted from
  the end when negative, and the call raises \<open>IndexError\<close> when that index is out of range.
\<close>

theorem image_routing:
  assumes "second_pass f directory_stack ([], []) = Inr (volume_dict, chunk_stack)"
    and "shape (volume_array_dict s) = shape (init_volume_array_dict [] volume_dict)"
    and "chunk_at f start = Some chunk"
    and "ch_type chunk = 1073741824" and "ch_ind chunk = 1"
    and "image_header_at f start = Some image_data"
    and "im_height image_data * im_width image_data \<noteq> 0"
    and "length (u16_at f start) \<ge> im_height image_data * im_width image_data"
    and "img = Image (OctImage (take (im_height image_data * im_width image_data) (u16_at f start))
                        (im_width image_data) (im_height image_data))"
  shows "(map_of (volume_array_dict s) (ch_volume_string chunk) = None) =
           (\<not> (\<exists>m. map_of volume_dict (ch_volume_string chunk) = Some m \<and> m > 0)) \<and>
         oct_chunk f start s =
           (case map_of (volume_array_dict s) (ch_volume_string chunk) of
              None \<Rightarrow>
                Inr (Continue,
                     bind_laterality
                       (s\<lparr>volume_array_dict_additional :=
                            dict_set (volume_array_dict_additional s) (ch_volume_string chunk)
                              ((case map_of (volume_array_dict_additional s) (ch_volume_string chunk) of
                                  None \<Rightarrow> []
                                | Some images \<Rightarrow> images) @ [img])\<rparr>)
                       chunk)
            | Some volume \<Rightarrow>
                (case py_index (length volume) (slice_index chunk) of
                   None \<Rightarrow> Inl IndexError
                 | Some j \<Rightarrow>
                     Inr (Continue,
                          bind_laterality
                            (s\<lparr>volume_array_dict :=
                                 dict_set (volume_array_dict s) (ch_volume_string chunk)
                                   (volume[j := img])\<rparr>)
                            chunk)))"
proof -
  let ?k = "ch_volume_string chunk"
  have "map_option length (map_of (volume_array_dict s) ?k) =
          (case map_of volume_dict ?k of
             None \<Rightarrow> None
           | Some m \<Rightarrow> if m > 0 then Some (nat (py_int m + 1)) else None)"
    using initialised_length [OF second_pass_distinct [OF assms(1)] assms(2)] .
  then have route: "(map_of (volume_array_dict s) ?k = None) =
           (\<not> (\<exists>m. map_of volume_dict ?k = Some m \<and> m > 0))"
    by (cases "map_of (volume_array_dict s) ?k"; cases "map_of volume_dict ?k")
       (auto split: if_splits)
  have len: "length (take (im_height image_data * im_width image_data) (u16_at f start))
               = im_width image_data * im_height image_data"
    using assms(8) by (simp add: mult.commute)
  have "oct_chunk f start s = image_chunk f start chunk s"
    using assms(3,4) by (simp add: oct_chunk_def)
  also have "\<dots> = (case store_image s chunk img of
                       Inl e \<Rightarrow> Inl e
                     | Inr s' \<Rightarrow> Inr (Continue, bind_laterality s' chunk))"
    using assms(5,6,7,9) len by (simp add: image_chunk_def Let_def)
  also have "\<dots> =
           (case map_of (volume_array_dict s) ?k of
              None \<Rightarrow>
                Inr (Continue,
                     bind_laterality
                       (s\<lparr>volume_array_dict_additional :=
                            dict_set (volume_array_dict_additional s) ?k
                              ((case map_of (volume_array_dict_additional s) ?k of
                                  None \<Rightarrow> []
                                | Some images \<Rightarrow> images) @ [img])\<rparr>)
                       chunk)
            | Some volume \<Rightarrow>
                (case py_index (length volume) (slice_index chunk) of
                   None \<Rightarrow> Inl IndexError
                 | Some j \<Rightarrow>
                     Inr (Continue,
                          bind_laterality
                            (s\<lparr>volume_array_dict :=
                                 dict_set (volume_array_dict s) ?k (volume[j := img])\<rparr>)
                            chunk)))"
    by (simp add: store_image_def list_setitem_def split: option.splits)
  finally show ?thesis using route by simp
qed

theorem image_routing_witness:
  "second_pass chunks_file [100] ([], []) = Inr ([(''1_2_3'', 0)], [(2000, 22)]) \<and>
   oct_chunk chunks_file 2000 (start_state [(''1_2_3'', 0)]) =
     Inr (Continue,
          (start_state [(''1_2_3'', 0)])
            \<lparr>volume_array_dict_additional := [(''1_2_3'', [Image (OctImage [7] 1 1)])]\<rparr>) \<and>
   second_pass chunks_file [200, 100] ([], []) =
     Inr ([(''1_2_3'', 2)], [(5000, 20), (5100, 20), (5200, 20), (5300, 20), (2000, 22)]) \<and>
   oct_chunk chunks_file 2000 (start_state [(''1_2_3'', 2)]) =
     Inr (Continue,
          (start_state [(''1_2_3'', 2)])
            \<lparr>volume_array_dict := [(''1_2_3'', [PyInt 0, PyInt 0, Image (OctImage [7] 1 1)])]\<rparr>)"
proof -
  let ?chunk = "\<lparr>ch_patient_id = 1, ch_study_id = 2, ch_series_id = 3, ch_slice_id = 0,
                 ch_ind = 1, ch_type = image_type\<rparr>"
  let ?image_data = "\<lparr>im_width = 1, im_height = 1\<rparr>"
  let ?img = "Image (OctImage (take (im_height ?image_data * im_width ?image_data)
                                 (u16_at chunks_file 2000))
                       (im_width ?image_data) (im_height ?image_data))"
  have key: "ch_volume_string ?chunk = ''1_2_3''"
    by (simp add: volume_string_eval)
  have idx: "slice_index ?chunk = - 1"
    by (simp add: slice_index_def py_int_zero)
  have img: "?img = Image (OctImage [7] 1 1)"
    by (simp add: u16_at_2000)
  have a: "oct_chunk chunks_file 2000 (start_state [(''1_2_3'', 0)]) =
     Inr (Continue,
          (start_state [(''1_2_3'', 0)])
            \<lparr>volume_array_dict_additional := [(''1_2_3'', [Image (OctImage [7] 1 1)])]\<rparr>)"
    using image_routing [OF second_pass_chunks_file_100 _ chunk_at_2000 _ _ image_header_at_2000,
        where s = "start_state [(''1_2_3'', 0)]" and img = ?img, THEN conjunct2]
    unfolding key idx img
    by (simp add: image_type_def u16_at_2000 bind_laterality_def state_eval)
  have b: "oct_chunk chunks_file 2000 (start_state [(''1_2_3'', 2)]) =
     Inr (Continue,
          (start_state [(''1_2_3'', 2)])
            \<lparr>volume_array_dict := [(''1_2_3'', [PyInt 0, PyInt 0, Image (OctImage [7] 1 1)])]\<rparr>)"
    using image_routing [OF second_pass_chunks_file _ chunk_at_2000 _ _ image_header_at_2000,
        where s = "start_state [(''1_2_3'', 2)]" and img = ?img, THEN conjunct2]
    unfolding key idx img start_state_simps init_volume_array_dict_2
    by (simp add: image_type_def u16_at_2000 bind_laterality_def start_state_simps py_index_def)
  from second_pass_chunks_file_100 a second_pass_chunks_file b show ?thesis
    by (intro conjI)
qed

section \<open>Laterality\<close>

text \<open>
  Claim C7, as the specification states it, fails: after a laterality chunk with the code
  82 has set the laterality to R, a laterality chunk with the code 0 (the chunk at 4000
  of \<open>chunks_file\<close>) leaves it at R; it does not set it to absent.
\<close>

theorem laterality_chunk_effect_counterexample:
  "laterality_at chunks_file 4000 = Some 0 \<and>
   oct_chunks chunks_file [(4100, 20), (4000, 20)] (start_state []) =
     Inr ((start_state [])\<lparr>laterality := Some ''R''\<rparr>) \<and>
   fundus_chunks chunks_file [(4100, 20), (4000, 20)] (init_fundus_state init_self) =
     Inr ((init_fundus_state init_self)\<lparr>fs_laterality := Some ''R''\<rparr>)"
  by (simp add: step_eval chunks_file_eval state_eval)

text \<open>
  Claim C7, amended.  When a laterality chunk (type 11) is processed, by either
  operation, the code 82 sets the current laterality to R, the code 76 sets it to L, a
  record that does not decode sets it to absent, and any other code leaves it as it was.
\<close>

theorem laterality_chunk_effect:
  assumes "chunk_at f start = Some chunk" and "ch_type chunk = 11"
    and "fs_laterality t = laterality s"
  shows "\<exists>l. oct_chunk f start s = Inr (Continue, s\<lparr>laterality := l\<rparr>) \<and>
             fundus_chunk f start t = Inr (Continue, t\<lparr>fs_laterality := l\<rparr>) \<and>
             (laterality_at f start = Some 82 \<longrightarrow> l = Some ''R'') \<and>
             (laterality_at f start = Some 76 \<longrightarrow> l = Some ''L'') \<and>
             (laterality_at f start = None \<longrightarrow> l = None) \<and>
             (\<forall>code. laterality_at f start = Some code \<and> code \<noteq> 82 \<and> code \<noteq> 76 \<longrightarrow>
                     l = laterality s)"
proof (intro exI conjI)
  show "oct_chunk f start s =
          Inr (Continue, s\<lparr>laterality := laterality_chunk f start (laterality s)\<rparr>)"
    using assms(1,2) by (simp add: oct_chunk_def)
  show "fundus_chunk f start t =
          Inr (Continue, t\<lparr>fs_laterality := laterality_chunk f start (laterality s)\<rparr>)"
    using assms by (simp add: fundus_chunk_def Let_def)
qed (auto simp: laterality_chunk_def)

theorem laterality_chunk_effect_witness:
  "oct_chunk chunks_file 4100 (start_state []) =
     Inr (Continue, (start_state [])\<lparr>laterality := Some ''R''\<rparr>) \<and>
   fundus_chunk chunks_file 4100 (init_fundus_state init_self) =
     Inr (Continue, (init_fundus_state init_self)\<lparr>fs_laterality := Some ''R''\<rparr>)"
proof -
  have c: "chunk_at chunks_file 4100 =
      Some \<lparr>ch_patient_id = 1, ch_study_id = 2, ch_series_id = 3, ch_slice_id = 0, ch_ind = 0,
            ch_type = 11\<rparr>"
    by (simp add: chunks_file_eval)
  have l: "laterality_at chunks_file 4100 = Some 82"
    by (simp add: chunks_file_eval)
  have e: "fs_laterality (init_fundus_state init_self) = laterality (start_state [])"
    by (simp add: state_eval)
  from laterality_chunk_effect [OF c _ e] l show ?thesis
    by auto
qed

section \<open>Images of size zero\<close>

text \<open>
  Claim C2, as the specification states it, fails for \<open>read_oct_volume\<close>: the image chunk
  at 3000 of \<open>chunks_file\<close> has \<open>width * height = 0\<close> and \<open>ind = 0\<close>, and the chunk loop
  goes on to the next chunk reference, whose B-scan it stores.
\<close>

theorem zero_sized_image_counterexample:
  "chunk_at chunks_file 3000 =
     Some \<lparr>ch_patient_id = 1, ch_study_id = 2, ch_series_id = 4, ch_slice_id = 0, ch_ind = 0,
           ch_type = image_type\<rparr> \<and>
   image_header_at chunks_file 3000 = Some \<lparr>im_width = 0, im_height = 0\<rparr> \<and>
   oct_chunks chunks_file [(3000, 20), (2000, 22)] (start_state []) =
     Inr ((start_state [])
            \<lparr>volume_array_dict_additional := [(''1_2_3'', [Image (OctImage [7] 1 1)])]\<rparr>)"
  by (simp add: step_eval chunks_file_eval state_eval volume_string_eval)

text \<open>
  Claim C2, amended.  In \<open>read_fundus_image\<close>, an image chunk (type 1073741824) with
  \<open>width * height = 0\<close> ends the processing of the chunk references, whatever its \<open>ind\<close>.
  In \<open>read_oct_volume\<close> it does so when its \<open>ind\<close> is 1; an image chunk with any other
  \<open>ind\<close> is passed over, whatever its size, and the loop continues with the next chunk
  reference.
\<close>

theorem zero_sized_image:
  assumes "chunk_at f start = Some chunk" and "ch_type chunk = 1073741824"
    and "image_header_at f start = Some image_data"
  shows "(im_width image_data * im_height image_data = 0 \<longrightarrow>
            fundus_chunks f ((start, pos) # rest) t = Inr t) \<and>
         (im_width image_data * im_height image_data = 0 \<and> ch_ind chunk = 1 \<longrightarrow>
            oct_chunks f ((start, pos) # rest) s = Inr s) \<and>
         (ch_ind chunk \<noteq> 1 \<longrightarrow>
            oct_chunks f ((start, pos) # rest) s = oct_chunks f rest s)"
proof (intro conjI impI)
  assume "im_width image_data * im_height image_data = 0"
  then have "im_height image_data * im_width image_data = 0"
    by (simp add: mult.commute)
  then have "fundus_chunk f start t = Inr (Break, t)"
    using assms by (simp add: fundus_chunk_def fundus_image_chunk_def Let_def)
  then show "fundus_chunks f ((start, pos) # rest) t = Inr t"
    by simp
next
  assume "im_width image_data * im_height image_data = 0 \<and> ch_ind chunk = 1"
  then have "im_height image_data * im_width image_data = 0" and "ch_ind chunk = 1"
    by (simp_all add: mult.commute)
  then have "oct_chunk f start s = Inr (Break, s)"
    using assms by (simp add: oct_chunk_def image_chunk_def Let_def)
  then show "oct_chunks f ((start, pos) # rest) s = Inr s"
    by simp
next
  assume "ch_ind chunk \<noteq> 1"
  then have "oct_chunk f start s = Inr (Continue, s)"
    using assms by (simp add: oct_chunk_def image_chunk_def Let_def)
  then show "oct_chunks f ((start, pos) # rest) s = oct_chunks f rest s"
    by simp
qed

theorem zero_sized_image_witness:
  "fundus_chunks chunks_file [(3000, 20), (2000, 22)] (init_fundus_state init_self) =
     Inr (init_fundus_state init_self) \<and>
   oct_chunks chunks_file [(3000, 20), (2000, 22)] (start_state []) =
     oct_chunks chunks_file [(2000, 22)] (start_state []) \<and>
   oct_chunks chunks_file [(3100, 20), (2000, 22)] (start_state []) = Inr (start_state []) \<and>
   oct_chunks chunks_file [(3200, 21), (2000, 22)] (start_state []) =
     oct_chunks chunks_file [(2000, 22)] (start_state [])"
proof -
  have c0: "chunk_at chunks_file 3000 =
      Some \<lparr>ch_patient_id = 1, ch_study_id = 2, ch_series_id = 4, ch_slice_id = 0, ch_ind = 0,
            ch_type = image_type\<rparr>"
    and c1: "chunk_at chunks_file 3100 =
      Some \<lparr>ch_patient_id = 1, ch_study_id = 2, ch_series_id = 5, ch_slice_id = 0, ch_ind = 1,
            ch_type = image_type\<rparr>"
    and c2: "chunk_at chunks_file 3200 =
      Some \<lparr>ch_patient_id = 1, ch_study_id = 2, ch_series_id = 6, ch_slice_id = 0, ch_ind = 0,
            ch_type = image_type\<rparr>"
    and h0: "image_header_at chunks_file 3000 = Some \<lparr>im_width = 0, im_height = 0\<rparr>"
    and h1: "image_header_at chunks_file 3100 = Some \<lparr>im_width = 0, im_height = 0\<rparr>"
    and h2: "image_header_at chunks_file 3200 = Some \<lparr>im_width = 1, im_height = 1\<rparr>"
    by (simp_all add: chunks_file_eval)
  have a: "fundus_chunks chunks_file [(3000, 20), (2000, 22)] (init_fundus_state init_self) =
      Inr (init_fundus_state init_self)"
    and b: "oct_chunks chunks_file [(3000, 20), (2000, 22)] (start_state []) =
      oct_chunks chunks_file [(2000, 22)] (start_state [])"
    using zero_sized_image [OF c0 _ h0, of 20 "[(2000, 22)]" "init_fundus_state init_self"
        "start_state []"]
    by (simp_all add: image_type_def)
  have c: "oct_chunks chunks_file [(3100, 20), (2000, 22)] (start_state []) = Inr (start_state [])"
    using zero_sized_image [OF c1 _ h1, of 20 "[(2000, 22)]" "init_fundus_state init_self"
        "start_state []"]
    by (simp add: image_type_def)
  have d: "oct_chunks chunks_file [(3200, 21), (2000, 22)] (start_state []) =
      oct_chunks chunks_file [(2000, 22)] (start_state [])"
    using zero_sized_image [OF c2 _ h2, of 21 "[(2000, 22)]" "init_fundus_state init_self"
        "start_state []"]
    by (simp add: image_type_def)
  from a b c d show ?thesis
    by (intro conjI)
qed

section \<open>Contours\<close>









subsection \<open>The chunk loop keeps \<open>contour_dict\<close> well formed\<close>





lemma bind_laterality_contour_dict [simp]:
  "contour_dict (bind_laterality s chunk) = contour_dict s"
  by (simp add: bind_laterality_def split: option.splits)





lemma py_int_numeral [simp]:
  "py_int (numeral n) = numeral n" "py_int 1 = 1" "py_int (- numeral n) = - numeral n"
  by (simp_all add: py_int_def)

lemma py_int_minus_one [simp]: "py_int (- 1) = - 1"
  using py_int_of_int [of "- 1"] by simp







section \<open>The volumes returned\<close>

lemma collect_volumes_member:
  "collect_volumes slf ld cd acc vols = Inr out \<Longrightarrow> v \<in> set out \<Longrightarrow>
   v \<in> set acc \<or>
   (\<exists>key volume patient_id.
      (key, volume) \<in> set vols \<and> volume \<noteq> [] \<and> \<not> isinstance_int (volume ! 0) \<and>
      self_patient_id slf = Some patient_id \<and>
      v = OCTVolumeWithMetaData volume patient_id (self_first_name slf) (self_surname slf)
            (self_sex slf) (self_acquisition_date slf) key (map_of ld key) (map_of cd key))"
proof (induction vols arbitrary: acc)
  case Nil
  then show ?case by simp
next
  case (Cons a vols)
  obtain key volume where a: "a = (key, volume)" by (cases a)
  from Cons.prems(1) a obtain first tl where vol: "volume = first # tl"
    by (cases volume) auto
  show ?case
  proof (cases "isinstance_int first")
    case True
    with Cons.prems(1) a vol have "collect_volumes slf ld cd acc vols = Inr out" by simp
    from Cons.IH [OF this Cons.prems(2)] show ?thesis by auto
  next
    case False
    with Cons.prems(1) a vol obtain patient_id where p: "self_patient_id slf = Some patient_id"
      by (cases "self_patient_id slf") auto
    let ?new = "OCTVolumeWithMetaData volume patient_id (self_first_name slf) (self_surname slf)
            (self_sex slf) (self_acquisition_date slf) key (map_of ld key) (map_of cd key)"
    from Cons.prems(1) a vol False p
    have "collect_volumes slf ld cd (acc @ [?new]) vols = Inr out" by simp
    from Cons.IH [OF this Cons.prems(2)]
    show ?thesis
    proof (elim disjE)
      assume "v \<in> set (acc @ [?new])"
      then consider "v \<in> set acc" | "v = ?new" by auto
      then show ?thesis
      proof cases
        case 1
        then show ?thesis by simp
      next
        case 2
        have "(key, volume) \<in> set (a # vols)" using a by simp
        moreover have "volume \<noteq> []" and "\<not> isinstance_int (volume ! 0)"
          using vol False by simp_all
        ultimately show ?thesis using 2 p by blast
      qed
    next
      assume "\<exists>key volume patient_id.
        (key, volume) \<in> set vols \<and> volume \<noteq> [] \<and> \<not> isinstance_int (volume ! 0) \<and>
        self_patient_id slf = Some patient_id \<and>
        v = OCTVolumeWithMetaData volume patient_id (self_first_name slf) (self_surname slf)
              (self_sex slf) (self_acquisition_date slf) key (map_of ld key) (map_of cd key)"
      then show ?thesis by auto
    qed
  qed
qed

lemma init_self_simps:
  "self_sex init_self = None" "self_first_name init_self = None"
  "self_surname init_self = None" "self_acquisition_date init_self = None"
  "self_birthdate init_self = None" "self_patient_id init_self = None"
  by (simp_all add: init_self_def)

lemma second_pass_one_volume_normal:
  "second_pass one_volume_file [100] ([], []) =
     Inr ([(''1_0_0'', - (1 / 2)), (''1_2_3'', 2)], [(1000, 127), (2000, 24)])"
  using second_pass_one_volume by simp

lemma traverse_one_volume: "traverse one_volume_file 100 [] = Some (Inr [100])"
  by (simp add: traverse.simps one_volume_file_def blank_file_def)

lemma oct_chunks_one_volume:
  "oct_chunks one_volume_file [(1000, 127), (2000, 24)]
     (init_oct_state init_self [(''1_0_0'', - (1 / 2)), (''1_2_3'', 2)]) =
   Inr \<lparr>self = \<lparr>self_sex = Some ''F'', self_first_name = Some ''A'', self_surname = Some ''B'',
                 self_acquisition_date = None, self_birthdate = Some (- 14558805),
                 self_patient_id = Some ''P1''\<rparr>,
        volume_array_dict = [(''1_2_3'', [Image (OctImage [7, 9] 2 1), PyInt 0, PyInt 0])],
        volume_array_dict_additional = [],
        laterality_dict = [],
        laterality = None,
        contour_dict = []\<rparr>"
  by (simp add: step_eval patient_chunk_def one_volume_file_def chunks_file_eval state_eval
      volume_string_eval numeral_3_eq_3)

lemma read_one_volume:
  "read_oct_volume init_self one_volume_file =
     Some (Inr ([OCTVolumeWithMetaData [Image (OctImage [7, 9] 2 1), PyInt 0, PyInt 0] ''P1''
                   (Some ''A'') (Some ''B'') (Some ''F'') None ''1_2_3'' None None],
                \<lparr>self_sex = Some ''F'', self_first_name = Some ''A'', self_surname = Some ''B'',
                 self_acquisition_date = None, self_birthdate = Some (- 14558805),
                 self_patient_id = Some ''P1''\<rparr>))"
proof -
  have h: "file_header one_volume_file"
    and m: "file_main_directory one_volume_file =
              Some \<lparr>md_num_entries = 3, md_current = 100, md_prev = 0\<rparr>"
    by (simp_all add: one_volume_file_def blank_file_def)
  show ?thesis
    by (simp add: read_oct_volume_def h m traverse_one_volume second_pass_one_volume_normal
        extract_volumes_def oct_chunks_one_volume
        del: second_pass.simps oct_chunks.simps)
qed

text \<open>
  Claim C5, as the specification states it, fails.  In \<open>one_volume_file\<close> the volume
  \<open>1_2_3\<close> has entries with the \<open>slice_id\<close>s 2 and 4, so three slots are initialised,
  and only the B-scan with \<open>slice_id = 2\<close> is present; it fills slot 0.  The volume is
  returned with \<open>num_slices = 3\<close> and the placeholder \<open>0\<close> in its slots 1 and 2.
\<close>

theorem returned_volumes_first_slot_counterexample:
  "read_oct_volume init_self one_volume_file =
     Some (Inr ([OCTVolumeWithMetaData [Image (OctImage [7, 9] 2 1), PyInt 0, PyInt 0] ''P1''
                   (Some ''A'') (Some ''B'') (Some ''F'') None ''1_2_3'' None None],
                \<lparr>self_sex = Some ''F'', self_first_name = Some ''A'', self_surname = Some ''B'',
                 self_acquisition_date = None, self_birthdate = Some (- 14558805),
                 self_patient_id = Some ''P1''\<rparr>)) \<and>
   vol_volume (OCTVolumeWithMetaData [Image (OctImage [7, 9] 2 1), PyInt 0, PyInt 0] ''P1''
                   (Some ''A'') (Some ''B'') (Some ''F'') None ''1_2_3'' None None) ! 1 = PyInt 0 \<and>
   vol_volume (OCTVolumeWithMetaData [Image (OctImage [7, 9] 2 1), PyInt 0, PyInt 0] ''P1''
                   (Some ''A'') (Some ''B'') (Some ''F'') None ''1_2_3'' None None) ! 2 = PyInt 0 \<and>
   vol_num_slices (OCTVolumeWithMetaData [Image (OctImage [7, 9] 2 1), PyInt 0, PyInt 0] ''P1''
                   (Some ''A'') (Some ''B'') (Some ''F'') None ''1_2_3'' None None) = 3"
proof -
  have "vol_volume (OCTVolumeWithMetaData [Image (OctImage [7, 9] 2 1), PyInt 0, PyInt 0] ''P1''
                   (Some ''A'') (Some ''B'') (Some ''F'') None ''1_2_3'' None None) ! 1 = PyInt 0"
    and "vol_volume (OCTVolumeWithMetaData [Image (OctImage [7, 9] 2 1), PyInt 0, PyInt 0] ''P1''
                   (Some ''A'') (Some ''B'') (Some ''F'') None ''1_2_3'' None None) ! 2 = PyInt 0"
    and "vol_num_slices (OCTVolumeWithMetaData [Image (OctImage [7, 9] 2 1), PyInt 0, PyInt 0] ''P1''
                   (Some ''A'') (Some ''B'') (Some ''F'') None ''1_2_3'' None None) = 3"
    by (simp_all add: OCTVolumeWithMetaData_def)
  with read_one_volume show ?thesis
    by (intro conjI)
qed

text \<open>
  Claim C5, amended.  For every \<open>OCTVolumeWithMetaData\<close> returned by \<open>read_oct_volume\<close>,
  \<open>num_slices\<close> equals the length of its slice sequence, that length is positive, and the
  first slot of the sequence is not the integer placeholder.
\<close>

theorem returned_volumes_first_slot:
  assumes "read_oct_volume slf f = Some (Inr (oct_volumes, slf'))"
    and "v \<in> set oct_volumes"
  shows "vol_num_slices v = length (vol_volume v) \<and> 0 < length (vol_volume v) \<and>
         \<not> isinstance_int (vol_volume v ! 0)"
proof -
  from assms(1) obtain volume_dict chunk_stack where
    ex: "extract_volumes f slf volume_dict chunk_stack = Inr (oct_volumes, slf')"
    by (auto simp: read_oct_volume_def split: if_splits option.splits sum.splits)
  then obtain s where oc: "oct_chunks f chunk_stack (init_oct_state slf volume_dict) = Inr s"
    by (cases "oct_chunks f chunk_stack (init_oct_state slf volume_dict)")
       (simp_all add: extract_volumes_def)
  with ex obtain contour_data where
    bc: "build_contour_data volume_dict [] (contour_dict s) = Inr contour_data"
    by (cases "build_contour_data volume_dict [] (contour_dict s)")
       (simp_all add: extract_volumes_def)
  with ex oc have
    "collect_volumes (self s) (laterality_dict s) contour_data []
       (volume_array_dict s @ volume_array_dict_additional s) = Inr oct_volumes"
    by (cases "collect_volumes (self s) (laterality_dict s) contour_data []
                 (volume_array_dict s @ volume_array_dict_additional s)")
       (simp_all add: extract_volumes_def)
  from collect_volumes_member [OF this assms(2)]
  obtain key volume patient_id where
    "volume \<noteq> []" "\<not> isinstance_int (volume ! 0)"
    "v = OCTVolumeWithMetaData volume patient_id (self_first_name (self s)) (self_surname (self s))
            (self_sex (self s)) (self_acquisition_date (self s)) key
            (map_of (laterality_dict s) key) (map_of contour_data key)"
    by auto
  then show ?thesis by (simp add: OCTVolumeWithMetaData_def)
qed

theorem returned_volumes_first_slot_witness:
  "read_oct_volume init_self one_volume_file =
     Some (Inr ([OCTVolumeWithMetaData [Image (OctImage [7, 9] 2 1), PyInt 0, PyInt 0] ''P1''
                   (Some ''A'') (Some ''B'') (Some ''F'') None ''1_2_3'' None None],
                \<lparr>self_sex = Some ''F'', self_first_name = Some ''A'', self_surname = Some ''B'',
                 self_acquisition_date = None, self_birthdate = Some (- 14558805),
                 self_patient_id = Some ''P1''\<rparr>)) \<and>
   vol_num_slices (OCTVolumeWithMetaData [Image (OctImage [7, 9] 2 1), PyInt 0, PyInt 0] ''P1''
                   (Some ''A'') (Some ''B'') (Some ''F'') None ''1_2_3'' None None) =
     length (vol_volume (OCTVolumeWithMetaData [Image (OctImage [7, 9] 2 1), PyInt 0, PyInt 0] ''P1''
                   (Some ''A'') (Some ''B'') (Some ''F'') None ''1_2_3'' None None)) \<and>
   0 < length (vol_volume (OCTVolumeWithMetaData [Image (OctImage [7, 9] 2 1), PyInt 0, PyInt 0] ''P1''
                   (Some ''A'') (Some ''B'') (Some ''F'') None ''1_2_3'' None None)) \<and>
   \<not> isinstance_int (vol_volume (OCTVolumeWithMetaData [Image (OctImage [7, 9] 2 1), PyInt 0, PyInt 0] ''P1''
                   (Some ''A'') (Some ''B'') (Some ''F'') None ''1_2_3'' None None) ! 0)"
proof -
  have "OCTVolumeWithMetaData [Image (OctImage [7, 9] 2 1), PyInt 0, PyInt 0] ''P1''
                   (Some ''A'') (Some ''B'') (Some ''F'') None ''1_2_3'' None None
        \<in> set [OCTVolumeWithMetaData [Image (OctImage [7, 9] 2 1), PyInt 0, PyInt 0] ''P1''
                   (Some ''A'') (Some ''B'') (Some ''F'') None ''1_2_3'' None None]"
    by simp
  from returned_volumes_first_slot [OF read_one_volume this] read_one_volume
  show ?thesis
    by (intro conjI) simp_all
qed

section \<open>A file without a decoded patient record\<close>

lemma oct_chunks_no_patient:
  "oct_chunks no_patient_file [(1000, 127), (2000, 24)]
     (init_oct_state init_self [(''1_0_0'', - (1 / 2)), (''1_2_3'', 2)]) =
   Inr \<lparr>self = init_self,
        volume_array_dict = [(''1_2_3'', [Image (OctImage [7, 9] 2 1), PyInt 0, PyInt 0])],
        volume_array_dict_additional = [],
        laterality_dict = [],
        laterality = None,
        contour_dict = []\<rparr>"
  by (simp add: step_eval patient_chunk_def no_patient_file_def one_volume_file_def
      chunks_file_eval state_eval volume_string_eval numeral_3_eq_3)

text \<open>
  Claim C3 says that \<open>read_oct_volume\<close> returns its volumes for a well-formed file with a
  populated volume and no successfully decoded patient chunk.  On \<open>no_patient_file\<close>, read
  by an object fresh from \<open>__init__\<close>, the call raises \<open>AttributeError\<close> instead:
  \<open>__init__\<close> does not create the attribute \<open>patient_id\<close>, and the loop that builds the
  result reads it for the first populated volume.
\<close>

theorem read_oct_volume_without_patient:
  "read_oct_volume init_self no_patient_file = Some (Inl AttributeError)"
proof -
  have h: "file_header no_patient_file"
    and m: "file_main_directory no_patient_file =
              Some \<lparr>md_num_entries = 3, md_current = 100, md_prev = 0\<rparr>"
    by (simp_all add: no_patient_file_def one_volume_file_def blank_file_def)
  have t: "traverse no_patient_file 100 [] = Some (Inr [100])"
    by (simp add: traverse.simps no_patient_file_def one_volume_file_def blank_file_def)
  have s: "second_pass no_patient_file [100] ([], []) =
     Inr ([(''1_0_0'', - (1 / 2)), (''1_2_3'', 2)], [(1000, 127), (2000, 24)])"
    by (simp add: no_patient_file_def one_volume_file_def blank_file_def one_volume_entries_def
        sub_directory_entry_def update_volume_dict_def push_chunk_def sd_half_def volume_string_eval)
  show ?thesis
    by (simp add: read_oct_volume_def h m t s extract_volumes_def oct_chunks_no_patient
        init_self_simps del: second_pass.simps oct_chunks.simps)
qed

end
